theory Spec2Isabelle
  imports Main "HOL-Library.Word" "HOL-Library.Signed_Division"
    "HOL-Library.Char_ord" "HOL-Library.List_Lexorder"
begin

section \<open>Errors\<close>

text \<open>
  Go functions of the repository return an \<open>error\<close> next to their result. The
  sentinel errors that the code compares against are constructors of their own; an error
  built with \<open>errors.New\<close> or \<open>fmt.Errorf\<close> is \<open>Err\<close> with the text that
  identifies the place it was built at; an error that \<open>fmt.Errorf\<close> wraps with
  \<open>%w\<close> is \<open>Wrap\<close> around it, and \<open>errors.Is\<close> looks through the wrapping.
\<close>

datatype error =
    Err string
  | Wrap string error
  | ErrNoRows
  | ErrNoSuchPrimaryAccount
  | ErrConcurrentReplication
  | ErrAccountNameEmpty

fun errors_Is :: "error \<Rightarrow> error \<Rightarrow> bool" where
  "errors_Is (Wrap msg inner) target = (Wrap msg inner = target \<or> errors_Is inner target)"
| "errors_Is err target = (err = target)"

section \<open>internal/keppel/duration.go\<close>

text \<open>
  \<open>Duration\<close> is \<open>time.Duration\<close>, an \<open>int64\<close> counting nanoseconds. Go's
  \<open>/\<close> and \<open>%\<close> on signed integers truncate towards zero; they are written out
  on the signed reading of the word.
\<close>

type_synonym Duration = "64 word"

definition go_quo :: "64 word \<Rightarrow> 64 word \<Rightarrow> 64 word" where
  "go_quo a b = word_of_int (sint a sdiv sint b)"

definition go_rem :: "64 word \<Rightarrow> 64 word \<Rightarrow> 64 word" where
  "go_rem a b = word_of_int (sint a smod sint b)"

record durationObj =
  Value :: "64 word"
  Unit :: string

definition time_Second :: Duration where
  "time_Second = 1000000000"

definition time_Minute :: Duration where
  "time_Minute = 60 * time_Second"

definition time_Hour :: Duration where
  "time_Hour = 60 * time_Minute"

text \<open>The table \<open>units\<close>, ordered from big to small as in the source.\<close>

definition units :: "(string \<times> Duration) list" where
  "units =
     [(''y'', 365 * 24 * time_Hour),
      (''w'', 7 * 24 * time_Hour),
      (''d'', 24 * time_Hour),
      (''h'', time_Hour),
      (''m'', time_Minute),
      (''s'', time_Second)]"

text \<open>
  \<open>MarshalJSON\<close> ends in \<open>json.Marshal\<close> of a \<open>durationObj\<close> and
  \<open>UnmarshalJSON\<close> starts with \<open>json.Unmarshal\<close> into one. The JSON codec
  belongs to Go's standard library; it is a parameter of the model: \<open>enc\<close> renders a
  \<open>durationObj\<close> as bytes, \<open>dec\<close> parses bytes, or fails.
\<close>

fun marshalUnits :: "(string \<times> Duration) list \<Rightarrow> Duration \<Rightarrow> error + durationObj" where
  "marshalUnits [] d = Inl (Err ''duration is not a multiple of 1 second'')"
| "marshalUnits ((name, len) # us) d =
     (if go_rem d len = 0 then Inr \<lparr>Value = go_quo d len, Unit = name\<rparr>
      else marshalUnits us d)"

definition MarshalJSON :: "(durationObj \<Rightarrow> 'b) \<Rightarrow> Duration \<Rightarrow> error + 'b" where
  "MarshalJSON enc d =
     (if d = 0 then Inr (enc \<lparr>Value = 0, Unit = ''s''\<rparr>)
      else (case marshalUnits units d of
              Inl e \<Rightarrow> Inl e
            | Inr obj \<Rightarrow> Inr (enc obj)))"

fun unmarshalUnits :: "(string \<times> Duration) list \<Rightarrow> durationObj \<Rightarrow> error + Duration" where
  "unmarshalUnits [] obj = Inl (Err ''unknown duration unit'')"
| "unmarshalUnits ((name, len) # us) obj =
     (if name = Unit obj then Inr (Value obj * len) else unmarshalUnits us obj)"

definition UnmarshalJSON :: "('b \<Rightarrow> error + durationObj) \<Rightarrow> 'b \<Rightarrow> error + Duration" where
  "UnmarshalJSON dec src =
     (case dec src of
        Inl e \<Rightarrow> Inl e
      | Inr obj \<Rightarrow> unmarshalUnits units obj)"

section \<open>internal/auth/audience.go\<close>

text \<open>
  Of \<open>keppel.Configuration\<close> the audience code reads the two public hostnames. The
  anycast hostname is optional; Go's zero value, the empty string, stands for "not
  configured".
\<close>

record Configuration =
  APIPublicHostname :: string
  AnycastAPIPublicHostname :: string

record Audience =
  IsAnycast :: bool
  AccountName :: string

text \<open>
  \<open>strings.SplitN(s, ".", 2)\<close>: the text before the first dot and the text after
  it, or \<open>s\<close> alone when it holds no dot.
\<close>

definition splitN2 :: "string \<Rightarrow> string list" where
  "splitN2 s =
     (case dropWhile (\<lambda>c. c \<noteq> CHR ''.'') s of
        [] \<Rightarrow> [s]
      | _ # rest \<Rightarrow> [takeWhile (\<lambda>c. c \<noteq> CHR ''.'') s, rest])"

text \<open>
  \<open>models.IsAccountName\<close> is declared in a file that is not part of the sources at
  hand; the predicate is the parameter \<open>isAccountName\<close>.
\<close>

definition IdentifyAudience :: "(string \<Rightarrow> bool) \<Rightarrow> string \<Rightarrow> Configuration \<Rightarrow> Audience" where
  "IdentifyAudience isAccountName hostname cfg =
     (if hostname \<noteq> [] \<and> hostname = APIPublicHostname cfg
        then \<lparr>IsAnycast = False, AccountName = []\<rparr>
      else if hostname \<noteq> [] \<and> hostname = AnycastAPIPublicHostname cfg
        then \<lparr>IsAnycast = True, AccountName = []\<rparr>
      else
        (case splitN2 hostname of
           [head, tail] \<Rightarrow>
             (if head \<noteq> [] \<and> tail \<noteq> [] \<and> isAccountName head then
                (if tail = APIPublicHostname cfg
                   then \<lparr>IsAnycast = False, AccountName = head\<rparr>
                 else if tail = AnycastAPIPublicHostname cfg
                   then \<lparr>IsAnycast = True, AccountName = head\<rparr>
                 else \<lparr>IsAnycast = False, AccountName = []\<rparr>)
              else \<lparr>IsAnycast = False, AccountName = []\<rparr>)
         | _ \<Rightarrow> \<lparr>IsAnycast = False, AccountName = []\<rparr>))"

definition Hostname :: "Audience \<Rightarrow> Configuration \<Rightarrow> string" where
  "Hostname a cfg =
     (let result = (if IsAnycast a then AnycastAPIPublicHostname cfg else APIPublicHostname cfg)
      in if AccountName a \<noteq> [] then AccountName a @ ''.'' @ result else result)"

definition MapPeerHostname :: "Audience \<Rightarrow> string \<Rightarrow> string" where
  "MapPeerHostname a peerHostname =
     (if AccountName a \<noteq> [] then AccountName a @ ''.'' @ peerHostname else peerHostname)"

text \<open>
  The audiences and configurations on which \<open>Hostname\<close> can be inverted: an anycast
  audience needs an anycast hostname that is configured and differs from the public one;
  a domain-remapped audience needs an account name that \<open>IsAccountName\<close> accepts and
  that holds no dot, a base hostname that is not empty, and a remapped hostname that is
  not itself the other well-known hostname.
\<close>

definition invertible :: "(string \<Rightarrow> bool) \<Rightarrow> Audience \<Rightarrow> Configuration \<Rightarrow> bool" where
  "invertible isAccountName a cfg =
     ((if IsAnycast a
         then AnycastAPIPublicHostname cfg \<noteq> [] \<and>
              AnycastAPIPublicHostname cfg \<noteq> APIPublicHostname cfg
         else True) \<and>
      (if AccountName a \<noteq> []
         then isAccountName (AccountName a) \<and> CHR ''.'' \<notin> set (AccountName a) \<and>
              (if IsAnycast a
                 then AccountName a @ ''.'' @ AnycastAPIPublicHostname cfg \<noteq> APIPublicHostname cfg
                 else APIPublicHostname cfg \<noteq> [] \<and>
                      AccountName a @ ''.'' @ APIPublicHostname cfg \<noteq> AnycastAPIPublicHostname cfg)
         else True))"

section \<open>internal/models/platform\_filter.go\<close>

text \<open>
  \<open>imagespecs.Platform\<close>. \<open>OSFeatures\<close> is a slice, and
  \<open>reflect.DeepEqual\<close> tells a nil slice from an empty one: \<open>None\<close> is nil.
\<close>

record Platform =
  Architecture :: string
  OS :: string
  OSVersion :: string
  OSFeatures :: "string list option"
  Variant :: string

type_synonym PlatformFilter = "Platform list"

text \<open>The loop of \<open>Includes\<close>; \<open>reflect.DeepEqual\<close> on two platforms is equality.\<close>

fun includesAny :: "PlatformFilter \<Rightarrow> Platform \<Rightarrow> bool" where
  "includesAny [] platform = False"
| "includesAny (p # f) platform = (if p = platform then True else includesAny f platform)"

definition Includes :: "PlatformFilter \<Rightarrow> Platform \<Rightarrow> bool" where
  "Includes f platform = (if length f = 0 then True else includesAny f platform)"

section \<open>internal/keppel/manifest\_parse.go\<close>

definition DockerV2ListMediaType :: string where
  "DockerV2ListMediaType = ''application/vnd.docker.distribution.manifest.list.v2+json''"

definition DockerV2Schema2MediaType :: string where
  "DockerV2Schema2MediaType = ''application/vnd.docker.distribution.manifest.v2+json''"

definition MediaTypeImageIndex :: string where
  "MediaTypeImageIndex = ''application/vnd.oci.image.index.v1+json''"

definition MediaTypeImageManifest :: string where
  "MediaTypeImageManifest = ''application/vnd.oci.image.manifest.v1+json''"

text \<open>\<open>imagespecs.Descriptor\<close>; \<open>Platform\<close> is a pointer, \<open>None\<close> is nil.\<close>

record Descriptor =
  MediaType :: string
  Digest :: string
  Size :: "64 word"
  URLs :: "string list"
  DescPlatform :: "Platform option"

text \<open>
  The types of \<open>containers/image\<close> that the adapters wrap. A manifest list entry
  (\<open>manifest.Schema2ManifestDescriptor\<close>) embeds a descriptor and always has a
  platform; the list itself (\<open>manifest.Schema2List\<close>) carries the \<open>mediaType\<close>
  field of its JSON document.
\<close>

record Schema2ManifestDescriptor =
  s2_MediaType :: string
  s2_Size :: "64 word"
  s2_Digest :: string
  s2_URLs :: "string list"
  s2_Architecture :: string
  s2_OS :: string
  s2_OSVersion :: string
  s2_OSFeatures :: "string list option"
  s2_Variant :: string
  s2_Features :: "string list option"

record Schema2List =
  list_SchemaVersion :: int
  list_MediaType :: string
  list_Manifests :: "Schema2ManifestDescriptor list"

record OCI1Index =
  index_MediaType :: string
  index_Manifests :: "Descriptor list"

text \<open>
  Image manifests (\<open>manifest.Schema2\<close>, \<open>manifest.OCI1\<close>): a config descriptor and
  layer descriptors.
\<close>

record ImageManifest =
  image_MediaType :: string
  image_Config :: Descriptor
  image_Layers :: "Descriptor list"

datatype ParsedManifest =
    v2ManifestListAdapter Schema2List
  | v2ManifestAdapter ImageManifest
  | ociIndexAdapter OCI1Index
  | ociManifestAdapter ImageManifest

text \<open>
  \<open>ParseManifest\<close> picks the adapter by the media type it is called with. The four
  parsers belong to \<open>containers/image\<close> and are parameters.
\<close>

record parsers =
  Schema2ListFromManifest :: "string \<Rightarrow> error + Schema2List"
  Schema2FromManifest :: "string \<Rightarrow> error + ImageManifest"
  OCI1IndexFromManifest :: "string \<Rightarrow> error + OCI1Index"
  OCI1FromManifest :: "string \<Rightarrow> error + ImageManifest"

definition ParseManifest :: "parsers \<Rightarrow> string \<Rightarrow> string \<Rightarrow> error + ParsedManifest" where
  "ParseManifest ps mediaType contents =
     (if mediaType = DockerV2ListMediaType then
        (case Schema2ListFromManifest ps contents of
           Inl e \<Rightarrow> Inl e | Inr m \<Rightarrow> Inr (v2ManifestListAdapter m))
      else if mediaType = DockerV2Schema2MediaType then
        (case Schema2FromManifest ps contents of
           Inl e \<Rightarrow> Inl e | Inr m \<Rightarrow> Inr (v2ManifestAdapter m))
      else if mediaType = MediaTypeImageIndex then
        (case OCI1IndexFromManifest ps contents of
           Inl e \<Rightarrow> Inl e | Inr m \<Rightarrow> Inr (ociIndexAdapter m))
      else if mediaType = MediaTypeImageManifest then
        (case OCI1FromManifest ps contents of
           Inl e \<Rightarrow> Inl e | Inr m \<Rightarrow> Inr (ociManifestAdapter m))
      else Inl (Err ''unsupported manifest media type''))"

text \<open>The loop body of \<open>v2ManifestListAdapter.ManifestReferences\<close>.\<close>

definition listEntryPlatform :: "Schema2ManifestDescriptor \<Rightarrow> Platform" where
  "listEntryPlatform m =
     \<lparr>Architecture = s2_Architecture m, OS = s2_OS m, OSVersion = s2_OSVersion m,
      OSFeatures = s2_OSFeatures m, Variant = s2_Variant m\<rparr>"

definition listEntryDescriptor :: "Schema2ManifestDescriptor \<Rightarrow> Descriptor" where
  "listEntryDescriptor m =
     \<lparr>MediaType = s2_MediaType m, Digest = s2_Digest m, Size = s2_Size m,
      URLs = s2_URLs m, DescPlatform = Some (listEntryPlatform m)\<rparr>"

fun listReferences :: "PlatformFilter \<Rightarrow> Schema2ManifestDescriptor list \<Rightarrow> Descriptor list" where
  "listReferences pf [] = []"
| "listReferences pf (m # ms) =
     (if Includes pf (listEntryPlatform m)
      then listEntryDescriptor m # listReferences pf ms
      else listReferences pf ms)"

fun indexReferences :: "PlatformFilter \<Rightarrow> Descriptor list \<Rightarrow> Descriptor list" where
  "indexReferences pf [] = []"
| "indexReferences pf (m # ms) =
     (if (case DescPlatform m of None \<Rightarrow> True | Some p \<Rightarrow> Includes pf p)
      then m # indexReferences pf ms
      else indexReferences pf ms)"

fun ManifestReferences :: "ParsedManifest \<Rightarrow> PlatformFilter \<Rightarrow> Descriptor list" where
  "ManifestReferences (v2ManifestListAdapter m) pf = listReferences pf (list_Manifests m)"
| "ManifestReferences (v2ManifestAdapter m) pf = []"
| "ManifestReferences (ociIndexAdapter m) pf = indexReferences pf (index_Manifests m)"
| "ManifestReferences (ociManifestAdapter m) pf = []"

text \<open>
  The loop of \<open>v2ManifestListAdapter.AcceptableAlternates\<close> over the references.
  \<open>m.Platform\<close> is dereferenced there; a nil pointer would be a panic, which is
  \<open>None\<close> as the result of the whole loop.
\<close>

fun listAlternates :: "string \<Rightarrow> Descriptor list \<Rightarrow> Descriptor list option" where
  "listAlternates listMediaType [] = Some []"
| "listAlternates listMediaType (m # ms) =
     (if listMediaType = DockerV2ListMediaType \<and> MediaType m = DockerV2Schema2MediaType then
        (case DescPlatform m of
           None \<Rightarrow> None
         | Some p \<Rightarrow>
             (case listAlternates listMediaType ms of
                None \<Rightarrow> None
              | Some result \<Rightarrow>
                  if OS p = ''linux'' \<and> Architecture p = ''amd64''
                  then Some (m # result) else Some result))
      else listAlternates listMediaType ms)"

fun AcceptableAlternates :: "ParsedManifest \<Rightarrow> PlatformFilter \<Rightarrow> Descriptor list option" where
  "AcceptableAlternates (v2ManifestListAdapter m) pf =
     listAlternates (list_MediaType m) (ManifestReferences (v2ManifestListAdapter m) pf)"
| "AcceptableAlternates (v2ManifestAdapter m) pf = Some []"
| "AcceptableAlternates (ociIndexAdapter m) pf = Some []"
| "AcceptableAlternates (ociManifestAdapter m) pf = Some []"

text \<open>
  What the claim calls an alternate: a child of media type Docker v2 schema 2 for
  \<open>linux/amd64\<close>.
\<close>

definition isLinuxAmd64Schema2 :: "Descriptor \<Rightarrow> bool" where
  "isLinuxAmd64Schema2 m =
     (MediaType m = DockerV2Schema2MediaType \<and>
      (case DescPlatform m of
         None \<Rightarrow> False
       | Some p \<Rightarrow> OS p = ''linux'' \<and> Architecture p = ''amd64''))"


text \<open>
  An example for the theorems on alternates: a manifest list whose document has no
  \<open>mediaType\<close> field (the field of \<open>manifest.Schema2List\<close> is then the empty
  string) and one entry, an image of media type Docker v2 schema 2 for
  \<open>linux/amd64\<close>; and parsers of which the one for lists returns this list.
\<close>

definition exAmd64Entry :: Schema2ManifestDescriptor where
  "exAmd64Entry =
     \<lparr>s2_MediaType = DockerV2Schema2MediaType, s2_Size = 592, s2_Digest = ''sha256:e255'',
      s2_URLs = [], s2_Architecture = ''amd64'', s2_OS = ''linux'', s2_OSVersion = [],
      s2_OSFeatures = None, s2_Variant = [], s2_Features = None\<rparr>"

definition exUntypedList :: Schema2List where
  "exUntypedList =
     \<lparr>list_SchemaVersion = 2, list_MediaType = [], list_Manifests = [exAmd64Entry]\<rparr>"

definition exListParsers :: "Schema2List \<Rightarrow> parsers" where
  "exListParsers l =
     \<lparr>Schema2ListFromManifest = (\<lambda>c. Inr l),
      Schema2FromManifest = (\<lambda>c. Inl (Err ''not an image manifest'')),
      OCI1IndexFromManifest = (\<lambda>c. Inl (Err ''not an index'')),
      OCI1FromManifest = (\<lambda>c. Inl (Err ''not an image manifest''))\<rparr>"
section \<open>internal/processor/accounts.go\<close>

text \<open>
  \<open>keppel.RegistryV2Error\<close> is declared outside the sources at hand. Of it the
  processor uses \<open>AsRegistryV2Error\<close>, which wraps an error, and \<open>WithStatus\<close>,
  which sets the HTTP status of the response; \<open>None\<close> is a status that was never set.
\<close>

record RegistryV2Error =
  Cause :: error
  Status :: "nat option"

definition AsRegistryV2Error :: "error \<Rightarrow> RegistryV2Error" where
  "AsRegistryV2Error e = \<lparr>Cause = e, Status = None\<rparr>"

definition WithStatus :: "RegistryV2Error \<Rightarrow> nat \<Rightarrow> RegistryV2Error" where
  "WithStatus rerr status = rerr\<lparr>Status := Some status\<rparr>"

definition StatusUnprocessableEntity :: nat where
  "StatusUnprocessableEntity = 422"

text \<open>\<open>strings.HasPrefix\<close>.\<close>

definition HasPrefix :: "string \<Rightarrow> string \<Rightarrow> bool" where
  "HasPrefix s pre = (take (length pre) s = pre)"

text \<open>
  \<open>looksLikeAPIVersionRx\<close> is the regular expression \<^verbatim>\<open>^v[0-9][1-9]*$\<close>: the
  letter v, one character of 0 to 9, then any number of characters of 1 to 9, and
  nothing else (without the multi-line flag, \<^verbatim>\<open>$\<close> is the end of the text).
\<close>

definition looksLikeAPIVersionRx :: "string \<Rightarrow> bool" where
  "looksLikeAPIVersionRx s =
     (case s of
        c # d # rest \<Rightarrow>
          c = CHR ''v'' \<and> d \<in> set ''0123456789'' \<and> list_all (\<lambda>x. x \<in> set ''123456789'') rest
      | _ \<Rightarrow> False)"

text \<open>
  The pattern in the specification's words, \<^verbatim>\<open>v[0-9]+\<close>: the letter v followed
  by one or more decimal digits.
\<close>

definition matches_v_digits :: "string \<Rightarrow> bool" where
  "matches_v_digits s =
     (case s of
        c # rest \<Rightarrow> c = CHR ''v'' \<and> rest \<noteq> [] \<and> list_all (\<lambda>x. x \<in> set ''0123456789'') rest
      | _ \<Rightarrow> False)"

text \<open>Of the API's \<open>keppel.Account\<close>, the fields that the checks on the name read.\<close>

record keppel_Account =
  Name :: string
  AuthTenantID :: string

text \<open>
  \<open>CreateOrUpdateAccount\<close> opens with the three checks on the account name (lines
  52 to 65) and returns from each of them before it has touched the database. What
  follows them, the lookup of the account, the validation of its policies, the claim of
  the name and the insert or update (lines 67 to 313), is the parameter \<open>proceed\<close>,
  which gets the database and returns it with its result.
\<close>

definition CreateOrUpdateAccount ::
  "('db \<Rightarrow> keppel_Account \<Rightarrow> (RegistryV2Error + 'a) \<times> 'db) \<Rightarrow>
   'db \<Rightarrow> keppel_Account \<Rightarrow> (RegistryV2Error + 'a) \<times> 'db" where
  "CreateOrUpdateAccount proceed db account =
     (if Name account = [] then
        (Inl (AsRegistryV2Error ErrAccountNameEmpty), db)
      else if HasPrefix (Name account) ''keppel'' then
        (Inl (WithStatus
           (AsRegistryV2Error (Err ''account names with the prefix keppel are reserved for internal use''))
           StatusUnprocessableEntity), db)
      else if looksLikeAPIVersionRx (Name account) then
        (Inl (WithStatus
           (AsRegistryV2Error (Err ''account names that look like API versions (e.g. v1) are reserved for internal use''))
           StatusUnprocessableEntity), db)
      else proceed db account)"

section \<open>internal/keppel/reverse\_proxy.go and internal/api/auth/api.go\<close>

text \<open>
  An HTTP request as the handlers read it: method, path, the query of the URL
  (\<open>url.Values\<close>) and the headers (\<open>http.Header\<close>), both maps from a name to a
  list of values.
\<close>

type_synonym Values = "string \<rightharpoonup> string list"

record Request =
  Method :: string
  URLPath :: string
  Query :: Values
  Header :: Values

text \<open>
  \<open>Get\<close> of \<open>url.Values\<close> and of \<open>http.Header\<close>: the first value under the
  name, or the empty string. \<open>Set\<close> replaces the values under the name. The header
  names that the code uses are in canonical form already.
\<close>

definition Get :: "Values \<Rightarrow> string \<Rightarrow> string" where
  "Get vs key = (case vs key of None \<Rightarrow> [] | Some [] \<Rightarrow> [] | Some (v # _) \<Rightarrow> v)"

definition Set_value :: "Values \<Rightarrow> string \<Rightarrow> string \<Rightarrow> Values" where
  "Set_value vs key v = vs(key \<mapsto> [v])"

definition reverseProxyHeaders :: "string list" where
  "reverseProxyHeaders = [''Accept'', ''Authorization'']"

text \<open>The request that \<open>ReverseProxyAnycastRequestToPeer\<close> sends to the peer.\<close>

record ProxyRequest =
  pr_Method :: string
  pr_Scheme :: string
  pr_Host :: string
  pr_Path :: string
  pr_Query :: Values
  pr_Header :: Values

text \<open>The loop that copies the headers of \<open>reverseProxyHeaders\<close>.\<close>

fun copyHeaders :: "string list \<Rightarrow> Values \<Rightarrow> Values \<Rightarrow> Values" where
  "copyHeaders [] src dst = dst"
| "copyHeaders (headerName # names) src dst =
     copyHeaders names src (dst(headerName := src headerName))"

definition buildProxyRequest :: "Configuration \<Rightarrow> Request \<Rightarrow> string \<Rightarrow> ProxyRequest" where
  "buildProxyRequest cfg r peerHostName =
     \<lparr>pr_Method = Method r,
      pr_Scheme = ''https'',
      pr_Host = peerHostName,
      pr_Path = URLPath r,
      pr_Query = Set_value (Query r) ''forwarded-by'' (APIPublicHostname cfg),
      pr_Header = Set_value (copyHeaders reverseProxyHeaders (Header r) Map.empty)
                    ''X-Keppel-Forwarded-By'' (APIPublicHostname cfg)\<rparr>"

text \<open>
  The response of the peer and the \<open>http.ResponseWriter\<close> of the caller: nothing
  written yet, or the status, headers and body that were written.
\<close>

record Response =
  StatusCode :: nat
  resp_Header :: Values
  Body :: string

type_synonym ResponseWriter = "Response option"

text \<open>
  Building the request and sending it over the network (\<open>http.NewRequestWithContext\<close>
  and \<open>client.Do\<close>) is the parameter \<open>send\<close>: the peer's response or an error.
  On an error nothing is written; otherwise the response is passed on to the caller.
\<close>

definition ReverseProxyAnycastRequestToPeer ::
  "(ProxyRequest \<Rightarrow> error + Response) \<Rightarrow> Configuration \<Rightarrow> ResponseWriter \<Rightarrow> Request \<Rightarrow>
   string \<Rightarrow> error option \<times> ResponseWriter" where
  "ReverseProxyAnycastRequestToPeer send cfg w r peerHostName =
     (case send (buildProxyRequest cfg r peerHostName) of
        Inl err \<Rightarrow> (Some err, w)
      | Inr resp \<Rightarrow> (None, Some resp))"

text \<open>
  \<open>reverseProxyTokenReqToUpstream\<close> of the auth API. \<open>FindPrimaryAccount\<close> of the
  federation driver is the parameter \<open>findPrimaryAccount\<close>.
\<close>

definition reverseProxyTokenReqToUpstream ::
  "(string \<Rightarrow> error + string) \<Rightarrow> (ProxyRequest \<Rightarrow> error + Response) \<Rightarrow> Configuration \<Rightarrow>
   ResponseWriter \<Rightarrow> Request \<Rightarrow> Audience \<Rightarrow> string \<Rightarrow> error option \<times> ResponseWriter" where
  "reverseProxyTokenReqToUpstream findPrimaryAccount send cfg w r audience accountName =
     (case findPrimaryAccount accountName of
        Inl err \<Rightarrow> (Some err, w)
      | Inr primaryHostName \<Rightarrow>
          if Get (Query r) ''X-Keppel-Forwarded-By'' \<noteq> [] then
            (Some (Err ''request blocked by reverse-proxy loop protection''), w)
          else
            ReverseProxyAnycastRequestToPeer send cfg w r
              (MapPeerHostname audience primaryHostName))"

text \<open>
  The request as the peer's handler receives it: what was sent, read back from the wire.
\<close>

definition asReceived :: "ProxyRequest \<Rightarrow> Request" where
  "asReceived pr =
     \<lparr>Method = pr_Method pr, URLPath = pr_Path pr, Query = pr_Query pr, Header = pr_Header pr\<rparr>"

section \<open>internal/processor/blobs.go: chunked uploads\<close>

text \<open>Of \<open>models.Upload\<close>, the fields that \<open>AppendToBlob\<close> reads and writes.\<close>

record Upload =
  StorageID :: string
  SizeBytes :: "64 word"
  NumChunks :: "32 word"

definition chunkSizeBytes :: "64 word" where
  "chunkSizeBytes = push_bit 20 500"

text \<open>
  The reader that the action is handed: the input itself, or the input behind
  \<open>io.LimitReader\<close>.
\<close>

datatype chunk_reader = Whole | LimitReader "64 word"

text \<open>
  \<open>foreachChunkWithKnownSize\<close>. The action gets the reader and the length of the
  chunk; everything it changes (the upload, the storage, the position in the input) is
  the state \<open>s\<close>.
\<close>

function foreachChunkWithKnownSize ::
  "64 word \<Rightarrow> (chunk_reader \<Rightarrow> 64 word \<Rightarrow> 's \<Rightarrow> error option \<times> 's) \<Rightarrow> 's \<Rightarrow> error option \<times> 's" where
  "foreachChunkWithKnownSize remainingBytes action s =
     (if remainingBytes > chunkSizeBytes then
        (case action (LimitReader chunkSizeBytes) chunkSizeBytes s of
           (Some err, s') \<Rightarrow> (Some err, s')
         | (None, s') \<Rightarrow> foreachChunkWithKnownSize (remainingBytes - chunkSizeBytes) action s')
      else action Whole remainingBytes s)"
  by pat_completeness auto
termination
proof (relation "measure (\<lambda>(remainingBytes, action, s). unat remainingBytes)")
  show "wf (measure (\<lambda>(remainingBytes, action, s). unat remainingBytes))" by simp
next
  fix remainingBytes :: "64 word"
    and action :: "chunk_reader \<Rightarrow> 64 word \<Rightarrow> 's \<Rightarrow> error option \<times> 's"
    and s x :: 's and err :: "error option" and s' :: 's
  assume gt: "chunkSizeBytes < remainingBytes"
  then have "chunkSizeBytes \<le> remainingBytes" by simp
  then have "unat (remainingBytes - chunkSizeBytes) = unat remainingBytes - unat chunkSizeBytes"
    by (rule unat_sub)
  moreover have "0 < unat chunkSizeBytes" by (simp add: chunkSizeBytes_def)
  moreover have "unat chunkSizeBytes < unat remainingBytes" using gt by (simp add: word_less_nat_alt)
  ultimately show
    "((remainingBytes - chunkSizeBytes, action, s'), (remainingBytes, action, s))
       \<in> measure (\<lambda>(remainingBytes, action, s). unat remainingBytes)"
    by simp
qed

text \<open>
  \<open>AppendToBlob\<close> of the storage driver is the parameter \<open>sd\<close>: it gets the
  driver's state (with it, the input that the reader reads from), the account, the
  storage ID, the chunk number, the chunk length if known, and the reader, and fails or
  not.
\<close>

type_synonym 'sd storage_append =
  "'sd \<Rightarrow> string \<Rightarrow> string \<Rightarrow> 32 word \<Rightarrow> 64 word option \<Rightarrow> chunk_reader \<Rightarrow> error option \<times> 'sd"

text \<open>The closure that \<open>AppendToBlob\<close> passes for an input of known length.\<close>

definition appendKnown ::
  "'sd storage_append \<Rightarrow> string \<Rightarrow> chunk_reader \<Rightarrow> 64 word \<Rightarrow> Upload \<times> 'sd \<Rightarrow>
   error option \<times> (Upload \<times> 'sd)" where
  "appendKnown sd account chunk chunkLengthBytes = (\<lambda>(upload, d).
     (let upload1 = upload\<lparr>NumChunks := NumChunks upload + 1\<rparr>;
          upload2 = upload1\<lparr>SizeBytes := SizeBytes upload1 + chunkLengthBytes\<rparr>
      in (case sd d account (StorageID upload2) (NumChunks upload2) (Some chunkLengthBytes) chunk of
            (err, d') \<Rightarrow> (err, (upload2, d')))))"

text \<open>
  \<open>Processor.AppendToBlob\<close>. The upload is changed in place; it is returned with
  the driver's state. The branch for an input of unknown length (lines 594 to 601), which
  reads ahead in the input to find its end, is the parameter \<open>appendUnknown\<close>.
\<close>

definition AppendToBlob ::
  "'sd storage_append \<Rightarrow> (string \<Rightarrow> Upload \<times> 'sd \<Rightarrow> error option \<times> (Upload \<times> 'sd)) \<Rightarrow>
   string \<Rightarrow> Upload \<Rightarrow> 64 word option \<Rightarrow> 'sd \<Rightarrow> error option \<times> (Upload \<times> 'sd)" where
  "AppendToBlob sd appendUnknown account upload lengthBytes d =
     (case lengthBytes of
        Some len \<Rightarrow> foreachChunkWithKnownSize len (appendKnown sd account) (upload, d)
      | None \<Rightarrow> appendUnknown account (upload, d))"

text \<open>
  For the statement of the claim: the number of chunks of an input of \<open>L\<close> bytes,
  \<open>max(1, ceil(L / 500 MiB))\<close>, and the calls of the storage driver that the claim
  expects for an upload that has \<open>n\<close> chunks already: chunk numbers \<open>n + 1\<close>,
  \<open>n + 2\<close> and so on, full chunks behind a \<open>LimitReader\<close> and the rest of the
  input last.
\<close>

definition numChunks :: "64 word \<Rightarrow> nat" where
  "numChunks L = max 1 ((unat L + (unat chunkSizeBytes - 1)) div unat chunkSizeBytes)"

definition expectedCalls :: "32 word \<Rightarrow> 64 word \<Rightarrow> (32 word \<times> 64 word \<times> chunk_reader) list" where
  "expectedCalls n L =
     map (\<lambda>i. (n + of_nat i,
                if i < numChunks L then chunkSizeBytes
                else L - of_nat (numChunks L - 1) * chunkSizeBytes,
                if i < numChunks L then LimitReader chunkSizeBytes else Whole))
       [1 ..< numChunks L + 1]"

text \<open>The driver's state after a list of calls that all succeed.\<close>

definition runCalls ::
  "'sd storage_append \<Rightarrow> string \<Rightarrow> string \<Rightarrow> 'sd \<Rightarrow> (32 word \<times> 64 word \<times> chunk_reader) list \<Rightarrow> 'sd" where
  "runCalls sd account storageID d calls =
     foldl (\<lambda>d (n, len, chunk). snd (sd d account storageID n (Some len) chunk)) d calls"


text \<open>
  The calls of a run. \<open>recording\<close> wraps a storage driver: the wrapped action does
  what the driver does and notes each call (chunk number, chunk length, reader) with the
  error that the driver returned for it.
\<close>

type_synonym append_call = "32 word \<times> 64 word option \<times> chunk_reader"

definition recording ::
  "'sd storage_append \<Rightarrow> ('sd \<times> (append_call \<times> error option) list) storage_append" where
  "recording sd = (\<lambda>(d, calls) account storageID chunkNumber chunkLength chunk.
     (case sd d account storageID chunkNumber chunkLength chunk of
        (err, d') \<Rightarrow> (err, (d', calls @ [((chunkNumber, chunkLength, chunk), err)]))))"

definition expectedAppendCalls :: "32 word \<Rightarrow> 64 word \<Rightarrow> append_call list" where
  "expectedAppendCalls n L = map (\<lambda>(m, len, chunk). (m, Some len, chunk)) (expectedCalls n L)"

text \<open>
  The decimal digits of \<open>n\<close>, as \<open>strconv.FormatUint(n, 10)\<close> and the verb
  \<^verbatim>\<open>%d\<close> of \<open>fmt\<close> write them.
\<close>

fun digit10 :: "nat \<Rightarrow> char" where
  "digit10 n = (''0123456789'' ! (n mod 10))"

function FormatUint10 :: "nat \<Rightarrow> string" where
  "FormatUint10 n = (if n < 10 then [digit10 n] else FormatUint10 (n div 10) @ [digit10 n])"
  by pat_completeness auto
termination
  by (relation "measure (\<lambda>n. n)") simp_all

section \<open>The in-memory storage driver (in-memory-for-testing)\<close>

text \<open>
  Of the \<open>StorageDriver\<close> for test suites, the two maps that \<open>AppendToBlob\<close>
  reads and writes; the lookup of a missing key in a Go map gives the zero value and
  \<open>exists = false\<close>. With them, \<open>input\<close> is what the reader of the upload has yet
  to deliver: \<open>io.ReadAll\<close> takes all of it, or as much as the \<open>LimitReader\<close>
  lets through.
\<close>

record inMemoryDriver =
  mem_blobs :: "string \<Rightarrow> 8 word list option"
  mem_blobChunkCounts :: "string \<Rightarrow> 32 word option"
  mem_input :: "8 word list"

definition blobKey :: "string \<Rightarrow> string \<Rightarrow> string" where
  "blobKey account storageID = account @ ''/'' @ storageID"

definition errAppendToBlobAfterFinalize :: error where
  "errAppendToBlobAfterFinalize = Err ''AppendToBlob() was called after FinalizeBlob()''"

definition readAll :: "chunk_reader \<Rightarrow> 8 word list \<Rightarrow> 8 word list \<times> 8 word list" where
  "readAll chunk input =
     (case chunk of
        Whole \<Rightarrow> (input, [])
      | LimitReader n \<Rightarrow> (take (unat n) input, drop (unat n) input))"

definition inMemory_AppendToBlob :: "inMemoryDriver storage_append" where
  "inMemory_AppendToBlob d account storageID chunkNumber chunkLength chunk =
     (let k = blobKey account storageID;
          chunkCount = (case mem_blobChunkCounts d k of None \<Rightarrow> 0 | Some c \<Rightarrow> c);
          exists = (mem_blobChunkCounts d k \<noteq> None)
      in if chunkNumber = 1 \<and> exists then
           (Some (Err (''expected chunk #'' @ FormatUint10 (unat (chunkCount + 1)) @
                       '', but got chunk #1'')), d)
         else if chunkNumber \<noteq> 1 \<and> exists \<and> chunkCount = 0 then
           (Some errAppendToBlobAfterFinalize, d)
         else if chunkNumber \<noteq> 1 \<and> (chunkCount + 1 \<noteq> chunkNumber \<or> \<not> exists) then
           (Some (Err (''expected chunk #'' @ FormatUint10 (unat (chunkCount + 1)) @
                       '', but got chunk #'' @ FormatUint10 (unat chunkNumber))), d)
         else
           (case readAll chunk (mem_input d) of
              (chunkBytes, rest) \<Rightarrow>
                (None,
                 d\<lparr>mem_blobs := (mem_blobs d)
                      (k \<mapsto> (case mem_blobs d k of None \<Rightarrow> [] | Some b \<Rightarrow> b) @ chunkBytes),
                   mem_blobChunkCounts := (mem_blobChunkCounts d)(k \<mapsto> chunkNumber),
                   mem_input := rest\<rparr>)))"

text \<open>
  An example: the driver after \<open>Init\<close>, with an input of 500 MiB and one byte to
  read.
\<close>

definition exInput :: "8 word list" where
  "exInput = replicate 524288001 0"

definition exInMemory :: inMemoryDriver where
  "exInMemory = \<lparr>mem_blobs = Map.empty, mem_blobChunkCounts = Map.empty, mem_input = exInput\<rparr>"
section \<open>The database\<close>

text \<open>
  The tables that the modelled functions read and write, each a list of rows, with the
  columns they use. A point in time (\<open>time.Time\<close>) is a number of nanoseconds;
  \<open>None\<close> is \<open>NULL\<close> in a column.
\<close>

type_synonym Time = int

definition Add :: "Time \<Rightarrow> Duration \<Rightarrow> Time" where
  "Add t d = t + sint d"

record Account =
  account_Name :: string
  account_AuthTenantID :: string
  account_UpstreamPeerHostName :: string
  account_IsDeleting :: bool
  account_NextBlobSweepedAt :: "Time option"
  account_NextDeletionAttemptAt :: "Time option"

record Repository =
  repo_ID :: int
  repo_AccountName :: string
  repo_Name :: string

record Manifest =
  manifest_RepositoryID :: int
  manifest_Digest :: string

record ManifestManifestRef =
  mmr_RepositoryID :: int
  mmr_ParentDigest :: string
  mmr_ChildDigest :: string

record Blob =
  blob_ID :: int
  blob_AccountName :: string
  blob_Digest :: string
  blob_SizeBytes :: "64 word"
  blob_StorageID :: string
  blob_MediaType :: string
  blob_PushedAt :: Time
  blob_NextValidationAt :: Time
  blob_CanBeDeletedAt :: "Time option"

record PendingBlob =
  pending_AccountName :: string
  pending_Digest :: string
  pending_Reason :: string
  pending_PendingSince :: Time

record DB =
  accounts :: "Account list"
  repos :: "Repository list"
  manifests :: "Manifest list"
  manifest_manifest_refs :: "ManifestManifestRef list"
  blobs :: "Blob list"
  pending_blobs :: "PendingBlob list"

text \<open>
  A statement can fail for reasons outside the model (the connection, the server). The
  places where the code runs a statement and checks its error are the constructors of
  \<open>stmt\<close>; \<open>faults\<close> says which of them fail, and with what error.
\<close>

datatype stmt =
    InsertPendingBlob
  | CountPendingBlobs
  | DeletePendingBlob
  | UpdateBlob
  | FindManifests
  | CountManifests
  | DeleteRepos
  | CountBlobs
  | MarkAllBlobsForDeletion
  | ScheduleBlobSweep
  | ScheduleDeletionAttempt
  | Begin
  | DeleteAccount
  | Commit

type_synonym faults = "stmt \<Rightarrow> error option"

section \<open>internal/processor/blobs.go: replication\<close>








text \<open>
  What a call changes: the database, the state of the storage driver, what has been
  written to the \<open>http.ResponseWriter\<close> (its headers, and the status once
  \<open>WriteHeader\<close> was called), and the two counters. The code runs its statements
  and calls the upstream and the storage one after the other; \<open>effects\<close> is the
  list of these, in the order in which they happened, so that what a function does
  before and after what can be told from the world it returns.
\<close>

datatype effect =
    Statement stmt
  | GetRepoClientForUpstream
  | DownloadBlob
  | WriteHeader
  | AppendChunks
  | FinalizeBlob
  | AbortBlobUpload
  | DeleteBlob














section \<open>internal/drivers/openstack/federation\_swift.go\<close>

datatype ClaimResult = ClaimSucceeded | ClaimFailed | ClaimErrored

text \<open>
  \<open>accountFile\<close>. \<open>ReplicaHostNames\<close> is a slice: \<open>None\<close> is nil, which
  \<open>reflect.DeepEqual\<close> tells from an empty slice and which JSON writes as
  \<open>null\<close>. The account name is not part of the JSON document; \<open>readAccountFile\<close>
  fills it in.
\<close>

record accountFile =
  file_AccountName :: string
  PrimaryHostName :: string
  ReplicaHostNames :: "string list option"
  SubleaseTokenSecret :: string

text \<open>
  The Swift container holds at most one document per account name. The driver's view of
  it: the documents, the driver's own hostname, and the requests that fail
  (\<open>swift_fault\<close>: the download before the write, the upload, the download after
  it). A download answered with 404 is no failure: it reads as an empty file. The
  container is read as it was last written.
\<close>

datatype swift_request = DownloadBefore | UploadFile | DownloadAfter

record federationDriverSwift =
  Container :: "string \<rightharpoonup> accountFile"
  OwnHostName :: string
  swift_fault :: "swift_request \<Rightarrow> error option"

definition readAccountFile ::
  "federationDriverSwift \<Rightarrow> swift_request \<Rightarrow> string \<Rightarrow> error + accountFile" where
  "readAccountFile fd request accountName =
     (case swift_fault fd request of
        Some err \<Rightarrow> Inl err
      | None \<Rightarrow>
          (case Container fd accountName of
             None \<Rightarrow> Inr \<lparr>file_AccountName = accountName, PrimaryHostName = [],
                           ReplicaHostNames = None, SubleaseTokenSecret = []\<rparr>
           | Some file \<Rightarrow> Inr (file\<lparr>file_AccountName := accountName\<rparr>)))"

text \<open>
  A modifier is the closure that \<open>modifyAccountFile\<close> is given. It changes the file
  in place and may set the variable \<open>isUserError\<close> of the function that built it;
  here it returns both with its error. It also says whether \<open>ReplicaHostNames\<close> is
  still the slice it was given (\<open>aliased\<close>): \<open>modifyAccountFile\<close> copies the
  struct, not the slice, and sorts the slice of the copy in place, so that an aliased
  slice is sorted in the original too before the two are compared. (A slice that
  \<open>append\<close> has grown in place shares the array as well, but is longer than the
  original and unequal to it either way.)
\<close>

record modified =
  mod_err :: "error option"
  mod_file :: accountFile
  mod_aliased :: bool
  mod_isUserError :: bool

type_synonym modifier = "accountFile \<Rightarrow> bool \<Rightarrow> bool \<Rightarrow> modified"

definition sortStrings :: "string list option \<Rightarrow> string list option" where
  "sortStrings list = map_option sort list"

text \<open>
  \<open>modifyAccountFile\<close>: the error, the value of \<open>isUserError\<close> (which starts as
  \<open>False\<close>) and the driver with the container as it is afterwards.
\<close>

definition modifyAccountFile ::
  "federationDriverSwift \<Rightarrow> string \<Rightarrow> modifier \<Rightarrow> (error option \<times> bool) \<times> federationDriverSwift" where
  "modifyAccountFile fd accountName modify =
     (case readAccountFile fd DownloadBefore accountName of
        Inl err \<Rightarrow> ((Some err, False), fd)
      | Inr fileOld \<Rightarrow>
          (let m1 = modify fileOld True False in
           case mod_err m1 of
             Some err \<Rightarrow> ((Some err, mod_isUserError m1), fd)
           | None \<Rightarrow>
               (let fileOldModified =
                      (mod_file m1)\<lparr>ReplicaHostNames := sortStrings (ReplicaHostNames (mod_file m1))\<rparr>;
                    fileOldSeen =
                      (if mod_aliased m1
                       then fileOld\<lparr>ReplicaHostNames := sortStrings (ReplicaHostNames fileOld)\<rparr>
                       else fileOld)
                in if fileOldSeen = fileOldModified then ((None, mod_isUserError m1), fd)
                   else
                     (case swift_fault fd UploadFile of
                        Some err \<Rightarrow> ((Some err, mod_isUserError m1), fd)
                      | None \<Rightarrow>
                          (let fd' = fd\<lparr>Container := (Container fd)(accountName \<mapsto> fileOldModified)\<rparr> in
                           case readAccountFile fd' DownloadAfter accountName of
                             Inl err \<Rightarrow> ((Some err, mod_isUserError m1), fd')
                           | Inr fileNew \<Rightarrow>
                               (let m2 = modify fileNew False (mod_isUserError m1) in
                                case mod_err m2 of
                                  Some err \<Rightarrow> ((Some err, mod_isUserError m2), fd')
                                | None \<Rightarrow>
                                    (let fileNewModified =
                                           (mod_file m2)\<lparr>ReplicaHostNames :=
                                              sortStrings (ReplicaHostNames (mod_file m2))\<rparr>;
                                         fileNewSeen =
                                           (if mod_aliased m2
                                            then fileNew\<lparr>ReplicaHostNames :=
                                                   sortStrings (ReplicaHostNames fileNew)\<rparr>
                                            else fileNew)
                                     in if fileNewSeen \<noteq> fileNewModified
                                        then ((Some (Err ''write collision while trying to update the account file, please retry''),
                                               mod_isUserError m2), fd')
                                        else ((None, mod_isUserError m2), fd'))))))))"

definition verifyAccountOwnership :: "accountFile \<Rightarrow> string \<Rightarrow> error option" where
  "verifyAccountOwnership file expectedPrimaryHostName =
     (if PrimaryHostName file \<noteq> expectedPrimaryHostName
      then Some (Err ''expected primary for account to be hosted by another peer'')
      else None)"

text \<open>
  \<open>addStringToList\<close>: the list itself when it has the value, else the list with the
  value appended. The second component says whether the result is the slice that was
  given.
\<close>

definition addStringToList :: "string list option \<Rightarrow> string \<Rightarrow> string list option \<times> bool" where
  "addStringToList list v =
     (case list of
        None \<Rightarrow> (Some [v], False)
      | Some xs \<Rightarrow> if v \<in> set xs then (Some xs, True) else (Some (xs @ [v]), False))"

text \<open>Of \<open>models.Account\<close>, the driver reads the name and the upstream peer.\<close>

definition claimPrimaryModifier :: "federationDriverSwift \<Rightarrow> modifier" where
  "claimPrimaryModifier fd file firstPass isUserError =
     (if PrimaryHostName file = [] \<or> PrimaryHostName file = OwnHostName fd then
        \<lparr>mod_err = None, mod_file = file\<lparr>PrimaryHostName := OwnHostName fd\<rparr>,
         mod_aliased = True, mod_isUserError = isUserError\<rparr>
      else
        \<lparr>mod_err = Some (Err ''account name is already in use''), mod_file = file,
         mod_aliased = True, mod_isUserError = True\<rparr>)"

definition claimPrimaryAccount ::
  "federationDriverSwift \<Rightarrow> Account \<Rightarrow> string \<Rightarrow> (bool \<times> error option) \<times> federationDriverSwift" where
  "claimPrimaryAccount fd account subleaseTokenSecret =
     (if subleaseTokenSecret \<noteq> [] then
        ((True, Some (Err ''cannot check sublease token when claiming a primary account'')), fd)
      else
        (case modifyAccountFile fd (account_Name account) (claimPrimaryModifier fd) of
           ((err, isUserError), fd') \<Rightarrow> ((isUserError, err), fd')))"

definition claimReplicaModifier :: "federationDriverSwift \<Rightarrow> Account \<Rightarrow> string \<Rightarrow> modifier" where
  "claimReplicaModifier fd account subleaseTokenSecret file firstPass isUserError =
     (if firstPass \<and> SubleaseTokenSecret file \<noteq> subleaseTokenSecret then
        \<lparr>mod_err = Some (Err ''invalid sublease token (or token was already used)''),
         mod_file = file, mod_aliased = True, mod_isUserError = True\<rparr>
      else
        (let file1 = (if firstPass then file\<lparr>SubleaseTokenSecret := []\<rparr> else file) in
         case verifyAccountOwnership file1 (account_UpstreamPeerHostName account) of
           Some err \<Rightarrow>
             \<lparr>mod_err = Some err, mod_file = file1, mod_aliased = True,
              mod_isUserError = isUserError\<rparr>
         | None \<Rightarrow>
             (case addStringToList (ReplicaHostNames file1) (OwnHostName fd) of
                (list, same) \<Rightarrow>
                  \<lparr>mod_err = None, mod_file = file1\<lparr>ReplicaHostNames := list\<rparr>,
                   mod_aliased = same, mod_isUserError = isUserError\<rparr>)))"

definition claimReplicaAccount ::
  "federationDriverSwift \<Rightarrow> Account \<Rightarrow> string \<Rightarrow> (bool \<times> error option) \<times> federationDriverSwift" where
  "claimReplicaAccount fd account subleaseTokenSecret =
     (if subleaseTokenSecret = [] then
        ((True, Some (Err ''missing sublease token'')), fd)
      else
        (case modifyAccountFile fd (account_Name account)
                (claimReplicaModifier fd account subleaseTokenSecret) of
           ((err, isUserError), fd') \<Rightarrow> ((isUserError, err), fd')))"

definition ClaimAccountName ::
  "federationDriverSwift \<Rightarrow> Account \<Rightarrow> string \<Rightarrow> (ClaimResult \<times> error option) \<times> federationDriverSwift" where
  "ClaimAccountName fd account subleaseTokenSecret =
     (case (if account_UpstreamPeerHostName account \<noteq> []
            then claimReplicaAccount fd account subleaseTokenSecret
            else claimPrimaryAccount fd account subleaseTokenSecret) of
        ((isUserError, Some err), fd') \<Rightarrow>
          if isUserError then ((ClaimFailed, Some err), fd') else ((ClaimErrored, Some err), fd')
      | ((isUserError, None), fd') \<Rightarrow> ((ClaimSucceeded, None), fd'))"

text \<open>Examples for the theorems on the claiming of names.\<close>

definition exAccount :: "string \<Rightarrow> Account" where
  "exAccount upstream =
     \<lparr>account_Name = ''library'', account_AuthTenantID = ''tenant1'',
      account_UpstreamPeerHostName = upstream, account_IsDeleting = False,
      account_NextBlobSweepedAt = None, account_NextDeletionAttemptAt = None\<rparr>"

definition exDriver :: "string \<Rightarrow> (string \<rightharpoonup> accountFile) \<Rightarrow> federationDriverSwift" where
  "exDriver own files = \<lparr>Container = files, OwnHostName = own, swift_fault = (\<lambda>request. None)\<rparr>"

section \<open>internal/tasks/account\_deletion.go\<close>

text \<open>The queries of the job, on the tables as lists of rows.\<close>

definition isChildManifest :: "DB \<Rightarrow> Repository \<Rightarrow> Manifest \<Rightarrow> bool" where
  "isChildManifest d r m =
     list_ex (\<lambda>mmr. mmr_RepositoryID mmr = repo_ID r \<and> mmr_ChildDigest mmr = manifest_Digest m)
       (manifest_manifest_refs d)"

text \<open>
  \<open>deleteAccountFindManifestsQuery\<close>: the manifests in the repositories of the
  account that no row of \<open>manifest_manifest_refs\<close> has as a child, each with the name
  of its repository.
\<close>

definition findRootManifests :: "string \<Rightarrow> DB \<Rightarrow> (string \<times> string) list" where
  "findRootManifests accountName d =
     [(repo_Name r, manifest_Digest m).
        m \<leftarrow> manifests d, r \<leftarrow> repos d, manifest_RepositoryID m = repo_ID r,
        a \<leftarrow> accounts d, account_Name a = repo_AccountName r, account_Name a = accountName,
        \<not> isChildManifest d r m]"

text \<open>\<open>deleteAccountCountManifestsQuery\<close>\<close>

definition countManifests :: "string \<Rightarrow> DB \<Rightarrow> int" where
  "countManifests accountName d =
     int (length
       [manifest_Digest m.
          m \<leftarrow> manifests d, r \<leftarrow> repos d, manifest_RepositoryID m = repo_ID r,
          a \<leftarrow> accounts d, account_Name a = repo_AccountName r, account_Name a = accountName])"

text \<open>
  \<open>deleteAccountReposQuery\<close>. What becomes of the rows of other tables that refer to
  a deleted repository is the schema's matter; the job runs the statement when it has
  counted no manifest in the repositories of the account.
\<close>

definition deleteRepos :: "string \<Rightarrow> DB \<Rightarrow> DB" where
  "deleteRepos accountName d =
     d\<lparr>repos := filter (\<lambda>r. repo_AccountName r \<noteq> accountName) (repos d)\<rparr>"

text \<open>\<open>deleteAccountCountBlobsQuery\<close>\<close>

definition countBlobs :: "string \<Rightarrow> DB \<Rightarrow> int" where
  "countBlobs accountName d =
     int (length (filter (\<lambda>b. blob_AccountName b = accountName) (blobs d)))"

text \<open>\<open>deleteAccountMarkAllBlobsForDeletionQuery\<close>\<close>

definition markAllBlobsForDeletion :: "string \<Rightarrow> Time \<Rightarrow> DB \<Rightarrow> DB" where
  "markAllBlobsForDeletion accountName t d =
     d\<lparr>blobs := map (\<lambda>b. if blob_AccountName b = accountName
                          then b\<lparr>blob_CanBeDeletedAt := Some t\<rparr> else b) (blobs d)\<rparr>"

text \<open>\<open>deleteAccountScheduleBlobSweepQuery\<close>\<close>

definition scheduleBlobSweep :: "string \<Rightarrow> Time \<Rightarrow> DB \<Rightarrow> DB" where
  "scheduleBlobSweep accountName t d =
     d\<lparr>accounts := map (\<lambda>a. if account_Name a = accountName
                             then a\<lparr>account_NextBlobSweepedAt := Some t\<rparr> else a) (accounts d)\<rparr>"

text \<open>\<^verbatim>\<open>UPDATE accounts SET next_deletion_attempt_at = $1 WHERE name = $2\<close>\<close>

definition scheduleDeletionAttempt :: "string \<Rightarrow> Time \<Rightarrow> DB \<Rightarrow> DB" where
  "scheduleDeletionAttempt accountName t d =
     d\<lparr>accounts := map (\<lambda>a. if account_Name a = accountName
                             then a\<lparr>account_NextDeletionAttemptAt := Some t\<rparr> else a) (accounts d)\<rparr>"

text \<open>\<open>tx.Delete(accountModel)\<close>: the row with the account's name is deleted.\<close>

definition deleteAccountRow :: "Account \<Rightarrow> DB \<Rightarrow> DB" where
  "deleteAccountRow account d =
     d\<lparr>accounts := filter (\<lambda>a. account_Name a \<noteq> account_Name account) (accounts d)\<rparr>"

text \<open>
  What the job changes: the database, the storage and the records of the federation
  driver.
\<close>

record ('sd, 'fd) JanitorWorld =
  jw_db :: DB
  jw_sd :: 'sd
  jw_fd :: 'fd

text \<open>
  The janitor's environment. Declared outside the sources at hand, and parameters here,
  are: \<open>keppel.FindAccount\<close> and \<open>keppel.FindRepository\<close>, which look a row up and
  return a pointer and an error; \<open>digest.Parse\<close>; \<open>Processor.DeleteManifest\<close>,
  which works on the database and the storage; \<open>CleanupAccount\<close> of the storage
  driver and \<open>ForfeitAccountName\<close> of the federation driver. The clock is read as one
  instant during a run.
\<close>

record ('sd, 'fd) Janitor =
  j_fault :: faults
  j_timeNow :: Time
  j_FindAccount :: "DB \<Rightarrow> string \<Rightarrow> Account option \<times> error option"
  j_FindRepository :: "DB \<Rightarrow> string \<Rightarrow> string \<Rightarrow> Repository option \<times> error option"
  j_digest_Parse :: "string \<Rightarrow> error + string"
  j_DeleteManifest ::
    "('sd, 'fd) JanitorWorld \<Rightarrow> Account \<Rightarrow> Repository \<Rightarrow> string \<Rightarrow>
     error option \<times> ('sd, 'fd) JanitorWorld"
  j_CleanupAccount :: "'sd \<Rightarrow> Account \<Rightarrow> error option \<times> 'sd"
  j_ForfeitAccountName :: "'fd \<Rightarrow> Account \<Rightarrow> error option \<times> 'fd"

text \<open>
  A call returns an error or nil, or it panics: Go dereferences the pointers that
  \<open>FindAccount\<close> and \<open>FindRepository\<close> return, and a nil pointer that came without
  an error is a run-time panic.
\<close>

datatype outcome = Return "error option" | Panic

text \<open>
  The callback of \<open>sqlext.ForeachRow\<close> for one row of the query, and the loop over
  the rows with the counter \<open>deletedManifestCount\<close>. The loop ends at the first row
  whose callback fails.
\<close>

definition deleteRootManifest ::
  "('sd, 'fd) Janitor \<Rightarrow> Account \<Rightarrow> string \<times> string \<Rightarrow> ('sd, 'fd) JanitorWorld \<Rightarrow>
   outcome \<times> ('sd, 'fd) JanitorWorld" where
  "deleteRootManifest j accountModel row w =
     (case row of (repoName, digestStr) \<Rightarrow>
        (case j_digest_Parse j digestStr of
           Inl err \<Rightarrow>
             (Return (Some (Wrap ''while deleting manifest: could not parse digest'' err)), w)
         | Inr parsedDigest \<Rightarrow>
             (case j_FindRepository j (jw_db w) repoName (account_Name accountModel) of
                (_, Some err) \<Rightarrow>
                  (Return (Some (Wrap ''while deleting manifest: could not find repository in DB'' err)), w)
              | (None, None) \<Rightarrow> (Panic, w)
              | (Some repo, None) \<Rightarrow>
                  (case j_DeleteManifest j w accountModel repo parsedDigest of
                     (Some err, w') \<Rightarrow> (Return (Some (Wrap ''while deleting manifest'' err)), w')
                   | (None, w') \<Rightarrow> (Return None, w')))))"

fun deleteRootManifests ::
  "('sd, 'fd) Janitor \<Rightarrow> Account \<Rightarrow> (string \<times> string) list \<Rightarrow> nat \<Rightarrow> ('sd, 'fd) JanitorWorld \<Rightarrow>
   (outcome \<times> nat) \<times> ('sd, 'fd) JanitorWorld" where
  "deleteRootManifests j accountModel [] deletedManifestCount w =
     ((Return None, deletedManifestCount), w)"
| "deleteRootManifests j accountModel (row # rows) deletedManifestCount w =
     (case deleteRootManifest j accountModel row w of
        (Return None, w') \<Rightarrow> deleteRootManifests j accountModel rows (deletedManifestCount + 1) w'
      | (failed, w') \<Rightarrow> ((failed, deletedManifestCount), w'))"

text \<open>
  The end of \<open>deleteMarkedAccount\<close>, from \<open>j.db.Begin()\<close> on: the account's row is
  deleted in a transaction, which is rolled back (\<open>RollbackUnlessCommitted\<close>) unless
  the storage driver and the federation driver agree and the commit succeeds.
\<close>

definition deleteAccountInTransaction ::
  "('sd, 'fd) Janitor \<Rightarrow> Account \<Rightarrow> ('sd, 'fd) JanitorWorld \<Rightarrow> outcome \<times> ('sd, 'fd) JanitorWorld" where
  "deleteAccountInTransaction j accountModel w =
     (case j_fault j Begin of
        Some err \<Rightarrow> (Return (Some err), w)
      | None \<Rightarrow>
     (case j_fault j DeleteAccount of
        Some err \<Rightarrow> (Return (Some err), w)
      | None \<Rightarrow>
     (case j_CleanupAccount j (jw_sd w) accountModel of
        (Some err, sd') \<Rightarrow>
          (Return (Some (Wrap ''while cleaning up storage for account'' err)), w\<lparr>jw_sd := sd'\<rparr>)
      | (None, sd') \<Rightarrow>
     (case j_ForfeitAccountName j (jw_fd w) accountModel of
        (Some err, fd') \<Rightarrow>
          (Return (Some (Wrap ''while cleaning up name claim for account'' err)),
           w\<lparr>jw_sd := sd', jw_fd := fd'\<rparr>)
      | (None, fd') \<Rightarrow>
     (case j_fault j Commit of
        Some err \<Rightarrow> (Return (Some err), w\<lparr>jw_sd := sd', jw_fd := fd'\<rparr>)
      | None \<Rightarrow>
          (Return None,
           w\<lparr>jw_db := deleteAccountRow accountModel (jw_db w), jw_sd := sd', jw_fd := fd'\<rparr>))))))"

text \<open>
  What follows once no manifest is left: the repositories are deleted; if blobs are
  left, they are marked, the blob sweep and the next attempt are scheduled, and the job
  returns; else the account is deleted.
\<close>

definition deleteReposAndBlobs ::
  "('sd, 'fd) Janitor \<Rightarrow> Account \<Rightarrow> ('sd, 'fd) JanitorWorld \<Rightarrow> outcome \<times> ('sd, 'fd) JanitorWorld" where
  "deleteReposAndBlobs j accountModel w =
     (case j_fault j DeleteRepos of
        Some err \<Rightarrow> (Return (Some err), w)
      | None \<Rightarrow>
     (let w1 = w\<lparr>jw_db := deleteRepos (account_Name accountModel) (jw_db w)\<rparr> in
      case j_fault j CountBlobs of
        Some err \<Rightarrow> (Return (Some err), w1)
      | None \<Rightarrow>
          if countBlobs (account_Name accountModel) (jw_db w1) > 0 then
            (case j_fault j MarkAllBlobsForDeletion of
               Some err \<Rightarrow> (Return (Some err), w1)
             | None \<Rightarrow>
            (let w2 = w1\<lparr>jw_db := markAllBlobsForDeletion (account_Name accountModel) (j_timeNow j) (jw_db w1)\<rparr> in
             case j_fault j ScheduleBlobSweep of
               Some err \<Rightarrow> (Return (Some err), w2)
             | None \<Rightarrow>
            (let w3 = w2\<lparr>jw_db := scheduleBlobSweep (account_Name accountModel) (j_timeNow j) (jw_db w2)\<rparr> in
             case j_fault j ScheduleDeletionAttempt of
               Some err \<Rightarrow> (Return (Some err), w3)
             | None \<Rightarrow>
                 (Return None,
                  w3\<lparr>jw_db := scheduleDeletionAttempt (account_Name accountModel)
                                 (Add (j_timeNow j) (1 * time_Minute)) (jw_db w3)\<rparr>))))
          else deleteAccountInTransaction j accountModel w1))"


text \<open>
  \<open>deleteMarkedAccount\<close>. It calls itself when manifests are left and some were
  deleted; whether that ends depends on what \<open>DeleteManifest\<close> does, so the function
  is partial: \<open>None\<close> is a run that does not return.
\<close>

partial_function (option) deleteMarkedAccount ::
  "('sd, 'fd) Janitor \<Rightarrow> string \<Rightarrow> ('sd, 'fd) JanitorWorld \<Rightarrow>
   (outcome \<times> ('sd, 'fd) JanitorWorld) option" where
  "deleteMarkedAccount j accountName w =
     (case j_FindAccount j (jw_db w) accountName of
        (_, Some err) \<Rightarrow>
          if errors_Is err ErrNoRows then Some (Return None, w) else Some (Return (Some err), w)
      | (None, None) \<Rightarrow> Some (Panic, w)
      | (Some accountModel, None) \<Rightarrow>
          (case j_fault j FindManifests of
             Some err \<Rightarrow> Some (Return (Some err), w)
           | None \<Rightarrow>
          (case deleteRootManifests j accountModel
                  (findRootManifests (account_Name accountModel) (jw_db w)) 0 w of
             ((Panic, deletedManifestCount), w1) \<Rightarrow> Some (Panic, w1)
           | ((Return (Some err), deletedManifestCount), w1) \<Rightarrow> Some (Return (Some err), w1)
           | ((Return None, deletedManifestCount), w1) \<Rightarrow>
               (case j_fault j CountManifests of
                  Some err \<Rightarrow> Some (Return (Some err), w1)
                | None \<Rightarrow>
                    if countManifests (account_Name accountModel) (jw_db w1) > 0 then
                      (if deletedManifestCount > 0 then deleteMarkedAccount j accountName w1
                       else Some (Return (Some (Err ''cannot make progress on deleting account: manifests remain, but none are ready to delete'')), w1))
                    else Some (deleteReposAndBlobs j accountModel w1)))))"

text \<open>
  An example for the theorems on the job: the account \<open>library\<close> with one repository
  that holds a manifest list and its two children, and two blobs. \<open>FindAccount\<close> is
  the lookup that \<open>CreateOrUpdateAccount\<close> relies on (internal/processor/accounts.go,
  lines 68 to 79): it returns the row, or a nil pointer and no error when no row has the
  name (there, an error is answered with status 500 and a nil pointer means that the
  account is to be created).
  \<open>DeleteManifest\<close> refuses a manifest that another manifest refers to, and else
  deletes its row and the references that leave it.
\<close>

definition findAccountOrNil :: "DB \<Rightarrow> string \<Rightarrow> Account option \<times> error option" where
  "findAccountOrNil d accountName =
     (case filter (\<lambda>a. account_Name a = accountName) (accounts d) of
        [] \<Rightarrow> (None, None)
      | a # _ \<Rightarrow> (Some a, None))"

definition findRepositoryOrErr ::
  "DB \<Rightarrow> string \<Rightarrow> string \<Rightarrow> Repository option \<times> error option" where
  "findRepositoryOrErr d repoName accountName =
     (case filter (\<lambda>r. repo_Name r = repoName \<and> repo_AccountName r = accountName) (repos d) of
        [] \<Rightarrow> (None, Some ErrNoRows)
      | r # _ \<Rightarrow> (Some r, None))"

definition exDeleteManifest ::
  "(unit, unit) JanitorWorld \<Rightarrow> Account \<Rightarrow> Repository \<Rightarrow> string \<Rightarrow>
   error option \<times> (unit, unit) JanitorWorld" where
  "exDeleteManifest w account repo digest =
     (let d = jw_db w in
      if list_ex (\<lambda>mmr. mmr_RepositoryID mmr = repo_ID repo \<and> mmr_ChildDigest mmr = digest)
           (manifest_manifest_refs d)
      then (Some (Err ''manifest is referenced by another manifest''), w)
      else (None, w\<lparr>jw_db := d\<lparr>
              manifests := filter (\<lambda>m. \<not> (manifest_RepositoryID m = repo_ID repo \<and>
                                              manifest_Digest m = digest)) (manifests d),
              manifest_manifest_refs :=
                filter (\<lambda>mmr. \<not> (mmr_RepositoryID mmr = repo_ID repo \<and>
                                   mmr_ParentDigest mmr = digest)) (manifest_manifest_refs d)\<rparr>\<rparr>))"

definition exJanitor :: "(unit, unit) Janitor" where
  "exJanitor =
     \<lparr>j_fault = (\<lambda>s. None), j_timeNow = 1000,
      j_FindAccount = findAccountOrNil, j_FindRepository = findRepositoryOrErr,
      j_digest_Parse = Inr, j_DeleteManifest = exDeleteManifest,
      j_CleanupAccount = (\<lambda>s a. (None, s)), j_ForfeitAccountName = (\<lambda>s a. (None, s))\<rparr>"

definition exLibrary :: Account where
  "exLibrary =
     \<lparr>account_Name = ''library'', account_AuthTenantID = ''tenant1'',
      account_UpstreamPeerHostName = [], account_IsDeleting = True,
      account_NextBlobSweepedAt = None, account_NextDeletionAttemptAt = Some 0\<rparr>"

definition exBlobOf :: "int \<Rightarrow> string \<Rightarrow> Blob" where
  "exBlobOf n digest =
     \<lparr>blob_ID = n, blob_AccountName = ''library'', blob_Digest = digest, blob_SizeBytes = 1102,
      blob_StorageID = ''stored'', blob_MediaType = [], blob_PushedAt = 0,
      blob_NextValidationAt = 0, blob_CanBeDeletedAt = None\<rparr>"

definition exJanitorWorld :: "Manifest list \<Rightarrow> ManifestManifestRef list \<Rightarrow> (unit, unit) JanitorWorld" where
  "exJanitorWorld ms refs =
     \<lparr>jw_db = \<lparr>accounts = [exLibrary],
                repos = [\<lparr>repo_ID = 1, repo_AccountName = ''library'', repo_Name = ''alpine''\<rparr>],
                manifests = ms, manifest_manifest_refs = refs,
                blobs = [exBlobOf 1 ''sha256:b1'', exBlobOf 2 ''sha256:b2''],
                pending_blobs = []\<rparr>,
      jw_sd = (), jw_fd = ()\<rparr>"

text \<open>
  The manifest list \<open>sha256:m\<close> of the example and its two children, and two
  manifests that refer to each other.
\<close>

definition exManifest :: "string \<Rightarrow> Manifest" where
  "exManifest digest = \<lparr>manifest_RepositoryID = 1, manifest_Digest = digest\<rparr>"

definition exRef :: "string \<Rightarrow> string \<Rightarrow> ManifestManifestRef" where
  "exRef parent child =
     \<lparr>mmr_RepositoryID = 1, mmr_ParentDigest = parent, mmr_ChildDigest = child\<rparr>"



definition exCycle :: "ManifestManifestRef list" where
  "exCycle = [exRef ''sha256:m1'' ''sha256:m2'', exRef ''sha256:m2'' ''sha256:m1'']"

text \<open>A database in which the account has no row any more.\<close>

definition exGoneWorld :: "(unit, unit) JanitorWorld" where
  "exGoneWorld =
     \<lparr>jw_db = \<lparr>accounts = [], repos = [], manifests = [], manifest_manifest_refs = [],
                blobs = [], pending_blobs = []\<rparr>,
      jw_sd = (), jw_fd = ()\<rparr>"
section \<open>Theorems\<close>

section \<open>Duration: JSON encoding\<close>

lemma go_rem_zero_sint:
  fixes d len :: "64 word"
  assumes "0 < sint len" and "go_rem d len = 0"
  shows "sint d smod sint len = 0"
proof -
  let ?x = "sint d" and ?l = "sint len"
  have b: "\<bar>?x smod ?l\<bar> < ?l"
    using assms(1) smod_int_range [of "sint len" "sint d"] by auto
  have l: "?l < 2 ^ 63"
    using sint_lt [of len] by simp
  have "word_of_int (?x smod ?l) = (0 :: 64 word)"
    using assms(2) by (simp add: go_rem_def)
  then have "(2 :: int) ^ 64 dvd ?x smod ?l"
    by (simp add: word_of_int_eq_0_iff)
  then show ?thesis
    using b l
    by (smt (verit) dvd_imp_le_int power_strict_increasing_iff numeral_less_iff semiring_norm)
qed

lemma go_quo_mult:
  fixes d len :: "64 word"
  assumes "0 < sint len" and "go_rem d len = 0"
  shows "go_quo d len * len = d"
proof -
  have "sint d sdiv sint len * sint len + sint d smod sint len = sint d"
    by (rule sdiv_mult_smod_eq)
  then have "sint d sdiv sint len * sint len = sint d"
    using go_rem_zero_sint [OF assms] by simp
  then have "word_of_int (sint d sdiv sint len * sint len) = (word_of_int (sint d) :: 64 word)"
    by simp
  then show ?thesis
    by (simp add: go_quo_def wi_hom_mult [symmetric])
qed

lemma units_pos: "(n, l) \<in> set units \<Longrightarrow> 0 < sint l"
  by (auto simp add: units_def time_Hour_def time_Minute_def time_Second_def)

lemma units_distinct: "distinct (map fst units)"
  by (simp add: units_def)

lemma units_sorted: "sorted_wrt (\<lambda>a b. sint (snd b) < sint (snd a)) units"
  by (simp add: units_def time_Hour_def time_Minute_def time_Second_def)

lemma unmarshalUnits_member:
  "distinct (map fst us) \<Longrightarrow> (Unit obj, l) \<in> set us \<Longrightarrow>
   unmarshalUnits us obj = Inr (Value obj * l)"
  by (induction us) (auto simp: rev_image_eqI)

text \<open>
  The loop of \<open>MarshalJSON\<close> over a table sorted from big to small returns the first
  entry that divides \<open>d\<close>, and no longer entry divides \<open>d\<close>.
\<close>

lemma marshalUnits_Inr:
  "sorted_wrt (\<lambda>a b. sint (snd b) < sint (snd a)) us \<Longrightarrow> marshalUnits us d = Inr obj \<Longrightarrow>
   \<exists>len. (Unit obj, len) \<in> set us \<and> go_rem d len = 0 \<and> Value obj = go_quo d len \<and>
     (\<forall>(n', l') \<in> set us. sint len < sint l' \<longrightarrow> go_rem d l' \<noteq> 0)"
proof (induction us)
  case Nil
  then show ?case by simp
next
  case (Cons u us)
  obtain n l where u: "u = (n, l)" by (cases u)
  have later: "\<forall>(n', l') \<in> set us. sint l' < sint l"
    using Cons.prems(1) u by auto
  show ?case
  proof (cases "go_rem d l = 0")
    case True
    with Cons.prems(2) u have obj: "Unit obj = n" "Value obj = go_quo d l" by auto
    have "\<forall>(n', l') \<in> set (u # us). sint l < sint l' \<longrightarrow> go_rem d l' \<noteq> 0"
      using later u by fastforce
    with obj True u show ?thesis by auto
  next
    case False
    with Cons.prems(2) u have m: "marshalUnits us d = Inr obj" by simp
    have srt: "sorted_wrt (\<lambda>a b. sint (snd b) < sint (snd a)) us"
      using Cons.prems(1) by simp
    from Cons.IH [OF srt m] obtain len where
      len: "(Unit obj, len) \<in> set us" "go_rem d len = 0" "Value obj = go_quo d len"
      "\<forall>(n', l') \<in> set us. sint len < sint l' \<longrightarrow> go_rem d l' \<noteq> 0" by blast
    have "\<forall>(n', l') \<in> set (u # us). sint len < sint l' \<longrightarrow> go_rem d l' \<noteq> 0"
      using len(4) False u by simp
    with len(1-3) show ?thesis by auto
  qed
qed

lemma marshalUnits_member:
  "(n, l) \<in> set us \<Longrightarrow> go_rem d l = 0 \<Longrightarrow> \<exists>obj. marshalUnits us d = Inr obj"
  by (induction us) auto

lemma marshalUnits_Inl:
  "\<forall>(n, l) \<in> set us. go_rem d l \<noteq> 0 \<Longrightarrow>
   marshalUnits us d = Inl (Err ''duration is not a multiple of 1 second'')"
  by (induction us) auto

lemma smod_zero_iff_dvd: "(a smod b = 0) = (b dvd a)" for a b :: int
  by (auto simp add: signed_modulo_int_def mod_eq_0_iff_dvd sgn_eq_0_iff)

lemma units_multiple_of_second:
  "(n, l) \<in> set units \<Longrightarrow> sint time_Second dvd sint l"
  by (auto simp add: units_def time_Hour_def time_Minute_def time_Second_def)

lemma go_rem_unit_second:
  assumes "(n, l) \<in> set units" and "go_rem d l = 0"
  shows "go_rem d time_Second = 0"
proof -
  have "sint d smod sint l = 0"
    using go_rem_zero_sint [OF units_pos [OF assms(1)] assms(2)] .
  then have "sint l dvd sint d" by (simp add: smod_zero_iff_dvd)
  then have "sint time_Second dvd sint d"
    using units_multiple_of_second [OF assms(1)] by (rule dvd_trans [rotated])
  then have "sint d smod sint time_Second = 0" by (simp add: smod_zero_iff_dvd)
  then show ?thesis by (simp add: go_rem_def)
qed

lemma MarshalJSON_not_multiple:
  assumes "go_rem d time_Second \<noteq> 0"
  shows "MarshalJSON enc d = Inl (Err ''duration is not a multiple of 1 second'')"
proof -
  have "d \<noteq> 0" using assms by (auto simp: go_rem_def)
  moreover have "\<forall>(n, l) \<in> set units. go_rem d l \<noteq> 0"
    using go_rem_unit_second assms by blast
  ultimately show ?thesis
    by (simp add: MarshalJSON_def marshalUnits_Inl)
qed

lemma MarshalJSON_multiple:
  assumes codec: "\<And>obj. dec (enc obj) = Inr obj"
    and sec: "go_rem d time_Second = 0"
  shows "\<exists>obj. MarshalJSON enc d = Inr (enc obj) \<and>
           UnmarshalJSON dec (enc obj) = Inr d \<and>
           (d = 0 \<longrightarrow> obj = \<lparr>Value = 0, Unit = ''s''\<rparr>) \<and>
           (d \<noteq> 0 \<longrightarrow>
              (\<exists>len. (Unit obj, len) \<in> set units \<and> go_rem d len = 0 \<and>
                 Value obj = go_quo d len \<and>
                 (\<forall>(n', l') \<in> set units. sint len < sint l' \<longrightarrow> go_rem d l' \<noteq> 0)))"
proof (cases "d = 0")
  case True
  have "(''s'', time_Second) \<in> set units" by (simp add: units_def)
  then have "unmarshalUnits units \<lparr>Value = 0, Unit = ''s''\<rparr> = Inr (0 * time_Second)"
    using unmarshalUnits_member [OF units_distinct, of "\<lparr>Value = 0, Unit = ''s''\<rparr>" time_Second]
    by simp
  then show ?thesis
    using True codec by (auto simp: MarshalJSON_def UnmarshalJSON_def)
next
  case False
  have "(''s'', time_Second) \<in> set units" by (simp add: units_def)
  from marshalUnits_member [OF this sec] obtain obj where m: "marshalUnits units d = Inr obj"
    by blast
  from marshalUnits_Inr [OF units_sorted m] obtain len where
    mem: "(Unit obj, len) \<in> set units" and r: "go_rem d len = 0"
    and v: "Value obj = go_quo d len"
    and large: "\<forall>(n', l') \<in> set units. sint len < sint l' \<longrightarrow> go_rem d l' \<noteq> 0"
    by blast
  have "unmarshalUnits units obj = Inr (Value obj * len)"
    by (rule unmarshalUnits_member [OF units_distinct mem])
  then have "unmarshalUnits units obj = Inr d"
    using go_quo_mult [OF units_pos [OF mem] r] v by simp
  then have "UnmarshalJSON dec (enc obj) = Inr d"
    by (simp add: UnmarshalJSON_def codec)
  moreover have "MarshalJSON enc d = Inr (enc obj)"
    using False m by (simp add: MarshalJSON_def)
  ultimately show ?thesis using False mem r v large by blast
qed

text \<open>
  Claim C7, as the code has it. \<open>MarshalJSON\<close> is not defined on every
  \<open>Duration\<close>: a value that is not a whole number of seconds is answered with an
  error. For a \<open>Duration\<close> \<open>d\<close> that is a multiple of one second, and a JSON codec
  that reads back what it wrote, \<open>MarshalJSON\<close> succeeds; zero is written as
  \<open>0\<close> with unit \<open>s\<close>; a value other than zero is written with a unit of the
  table that divides it, the value being the quotient, and no longer unit of the table
  divides it; and \<open>UnmarshalJSON\<close> of the bytes gives \<open>d\<close> back.
\<close>

theorem Duration_json_roundtrip:
  assumes codec: "\<And>obj. dec (enc obj) = Inr obj"
  shows "if go_rem d time_Second = 0
         then \<exists>obj. MarshalJSON enc d = Inr (enc obj) \<and>
           UnmarshalJSON dec (enc obj) = Inr d \<and>
           (d = 0 \<longrightarrow> obj = \<lparr>Value = 0, Unit = ''s''\<rparr>) \<and>
           (d \<noteq> 0 \<longrightarrow>
              (\<exists>len. (Unit obj, len) \<in> set units \<and> go_rem d len = 0 \<and>
                 Value obj = go_quo d len \<and>
                 (\<forall>(n', l') \<in> set units. sint len < sint l' \<longrightarrow> go_rem d l' \<noteq> 0)))
         else MarshalJSON enc d = Inl (Err ''duration is not a multiple of 1 second'')"
  using MarshalJSON_multiple [of dec enc d, OF codec] MarshalJSON_not_multiple [of d enc]
  by (cases "go_rem d time_Second = 0") simp_all

text \<open>Two weeks are written as \<open>2\<close> with unit \<open>w\<close> and read back.\<close>

theorem Duration_json_roundtrip_witness:
  "go_rem 1209600000000000 time_Second = 0 \<and>
   MarshalJSON id 1209600000000000 = Inr \<lparr>Value = 2, Unit = ''w''\<rparr> \<and>
   UnmarshalJSON Inr \<lparr>Value = 2, Unit = ''w''\<rparr> = Inr 1209600000000000"
proof -
  have h: "go_rem 1209600000000000 time_Second = 0"
    by (simp add: go_rem_def time_Second_def)
  have m: "MarshalJSON id 1209600000000000 = Inr \<lparr>Value = 2, Unit = ''w''\<rparr>"
    by (simp add: MarshalJSON_def units_def time_Hour_def time_Minute_def time_Second_def
        go_rem_def go_quo_def)
  from Duration_json_roundtrip [where dec = Inr and enc = id and d = 1209600000000000] h
  obtain obj where "MarshalJSON id 1209600000000000 = Inr (id obj)"
    "UnmarshalJSON Inr (id obj) = Inr (1209600000000000 :: 64 word)" by auto
  with m h show ?thesis by simp
qed

text \<open>
  The claim as the specification words it, for every \<open>Duration\<close>, fails at one
  nanosecond: there is nothing to read back.
\<close>

theorem Duration_json_roundtrip_counterexample:
  "MarshalJSON id 1 = Inl (Err ''duration is not a multiple of 1 second'')"
  by (simp add: MarshalJSON_def units_def time_Hour_def time_Minute_def time_Second_def
      go_rem_def signed_modulo_int_def)

section \<open>Audience: hostname and back\<close>

lemma splitN2_nodot:
  assumes "CHR ''.'' \<notin> set s"
  shows "splitN2 s = [s]"
proof -
  have "\<forall>c \<in> set s. c \<noteq> CHR ''.''" using assms by blast
  then have d: "dropWhile (\<lambda>c. c \<noteq> CHR ''.'') s = []" by simp
  show ?thesis unfolding splitN2_def d by simp
qed

lemma splitN2_join:
  assumes "CHR ''.'' \<notin> set n"
  shows "splitN2 (n @ ''.'' @ h) = [n, h]"
proof -
  have a: "\<And>c. c \<in> set n \<Longrightarrow> c \<noteq> CHR ''.''" using assms by blast
  have d: "dropWhile (\<lambda>c. c \<noteq> CHR ''.'') (n @ ''.'' @ h) = ''.'' @ h"
    using a by simp
  have t: "takeWhile (\<lambda>c. c \<noteq> CHR ''.'') (n @ ''.'' @ h) = n"
    using a by simp
  show ?thesis unfolding splitN2_def d t by simp
qed

lemma splitN2_head_nodot:
  assumes "splitN2 s = [x, y]"
  shows "CHR ''.'' \<notin> set x"
proof -
  have "x = takeWhile (\<lambda>c. c \<noteq> CHR ''.'') s"
    using assms by (simp add: splitN2_def split: list.splits)
  then show ?thesis by (auto dest: set_takeWhileD)
qed

lemma append_dot_neq: "n @ c # h \<noteq> h"
proof
  assume "n @ c # h = h"
  then have "length (n @ c # h) = length h" by (rule arg_cong)
  then show False by simp
qed

lemma Hostname_invertible:
  assumes "invertible p a cfg"
  shows "IdentifyAudience p (Hostname a cfg) cfg = a"
proof (cases "AccountName a = []")
  case True
  show ?thesis
  proof (cases "IsAnycast a")
    case T: True
    then have "Hostname a cfg = AnycastAPIPublicHostname cfg"
      using True by (simp add: Hostname_def)
    moreover have "AnycastAPIPublicHostname cfg \<noteq> []"
      "AnycastAPIPublicHostname cfg \<noteq> APIPublicHostname cfg"
      using assms T by (simp_all add: invertible_def)
    ultimately have "IdentifyAudience p (Hostname a cfg) cfg = \<lparr>IsAnycast = True, AccountName = []\<rparr>"
      by (simp add: IdentifyAudience_def)
    then show ?thesis using True T by simp
  next
    case F: False
    then have h: "Hostname a cfg = APIPublicHostname cfg"
      using True by (simp add: Hostname_def)
    have "IdentifyAudience p (APIPublicHostname cfg) cfg = \<lparr>IsAnycast = False, AccountName = []\<rparr>"
      by (cases "APIPublicHostname cfg = []") (simp_all add: IdentifyAudience_def splitN2_def)
    then show ?thesis using True F h by simp
  qed
next
  case False
  then have nd: "CHR ''.'' \<notin> set (AccountName a)" and v: "p (AccountName a)"
    using assms by (simp_all add: invertible_def)
  show ?thesis
  proof (cases "IsAnycast a")
    case T: True
    let ?A = "AnycastAPIPublicHostname cfg"
    have h: "Hostname a cfg = AccountName a @ ''.'' @ ?A"
      using False T by (simp add: Hostname_def)
    have c: "?A \<noteq> []" "?A \<noteq> APIPublicHostname cfg"
      "AccountName a @ ''.'' @ ?A \<noteq> APIPublicHostname cfg"
      using assms T False by (simp_all add: invertible_def)
    have "AccountName a @ ''.'' @ ?A \<noteq> ?A"
      using append_dot_neq [of "AccountName a"] by simp
    then have "IdentifyAudience p (AccountName a @ ''.'' @ ?A) cfg =
        \<lparr>IsAnycast = True, AccountName = AccountName a\<rparr>"
      unfolding IdentifyAudience_def splitN2_join [OF nd]
      using c v False by simp
    then show ?thesis using h T by simp
  next
    case F: False
    let ?P = "APIPublicHostname cfg"
    have h: "Hostname a cfg = AccountName a @ ''.'' @ ?P"
      using False F by (simp add: Hostname_def)
    have c: "?P \<noteq> []" "AccountName a @ ''.'' @ ?P \<noteq> AnycastAPIPublicHostname cfg"
      using assms F False by (simp_all add: invertible_def)
    have "AccountName a @ ''.'' @ ?P \<noteq> ?P"
      using append_dot_neq [of "AccountName a"] by simp
    then have "IdentifyAudience p (AccountName a @ ''.'' @ ?P) cfg =
        \<lparr>IsAnycast = False, AccountName = AccountName a\<rparr>"
      unfolding IdentifyAudience_def splitN2_join [OF nd]
      using c v False by simp
    then show ?thesis using h F by simp
  qed
qed


lemma splitN2_cases:
  "splitN2 s = [s] \<or> (\<exists>x y. splitN2 s = [x, y] \<and> CHR ''.'' \<notin> set x)"
proof (cases "dropWhile (\<lambda>c. c \<noteq> CHR ''.'') s")
  case Nil
  show ?thesis unfolding splitN2_def Nil by simp
next
  case (Cons c rest)
  have "CHR ''.'' \<notin> set (takeWhile (\<lambda>c. c \<noteq> CHR ''.'') s)"
    by (auto dest: set_takeWhileD)
  then show ?thesis unfolding splitN2_def Cons by simp
qed

lemma IdentifyAudience_account_nodot:
  "CHR ''.'' \<notin> set (AccountName (IdentifyAudience p h cfg))"
proof -
  from splitN2_cases [of h] show ?thesis
  proof
    assume e: "splitN2 h = [h]"
    show ?thesis unfolding IdentifyAudience_def e by simp
  next
    assume "\<exists>x y. splitN2 h = [x, y] \<and> CHR ''.'' \<notin> set x"
    then obtain x y where e: "splitN2 h = [x, y]" and nd: "CHR ''.'' \<notin> set x" by blast
    show ?thesis unfolding IdentifyAudience_def e using nd by simp
  qed
qed

lemma IdentifyAudience_empty: "\<not> IsAnycast (IdentifyAudience p [] cfg)"
  by (simp add: IdentifyAudience_def splitN2_def)

lemma IdentifyAudience_public: "\<not> IsAnycast (IdentifyAudience p (APIPublicHostname cfg) cfg)"
  by (cases "APIPublicHostname cfg = []") (simp_all add: IdentifyAudience_def splitN2_def)

lemma IdentifyAudience_account_valid:
  "AccountName (IdentifyAudience p h cfg) = [] \<or> p (AccountName (IdentifyAudience p h cfg))"
proof -
  from splitN2_cases [of h] show ?thesis
  proof
    assume e: "splitN2 h = [h]"
    show ?thesis unfolding IdentifyAudience_def e by simp
  next
    assume "\<exists>x y. splitN2 h = [x, y] \<and> CHR ''.'' \<notin> set x"
    then obtain x y where e: "splitN2 h = [x, y]" by blast
    show ?thesis unfolding IdentifyAudience_def e by simp
  qed
qed

lemma IdentifyAudience_join:
  assumes "CHR ''.'' \<notin> set n"
  shows "IdentifyAudience p (n @ ''.'' @ H) cfg =
    (if n @ ''.'' @ H = APIPublicHostname cfg then \<lparr>IsAnycast = False, AccountName = []\<rparr>
     else if n @ ''.'' @ H = AnycastAPIPublicHostname cfg then \<lparr>IsAnycast = True, AccountName = []\<rparr>
     else if n \<noteq> [] \<and> H \<noteq> [] \<and> p n then
       (if H = APIPublicHostname cfg then \<lparr>IsAnycast = False, AccountName = n\<rparr>
        else if H = AnycastAPIPublicHostname cfg then \<lparr>IsAnycast = True, AccountName = n\<rparr>
        else \<lparr>IsAnycast = False, AccountName = []\<rparr>)
     else \<lparr>IsAnycast = False, AccountName = []\<rparr>)"
  unfolding IdentifyAudience_def splitN2_join [OF assms] by simp

lemma Hostname_inverted_only:
  assumes r: "IdentifyAudience p (Hostname a cfg) cfg = a"
  shows "invertible p a cfg"
proof (cases "AccountName a = []")
  case True
  show ?thesis
  proof (cases "IsAnycast a")
    case T: True
    then have h: "Hostname a cfg = AnycastAPIPublicHostname cfg"
      using True by (simp add: Hostname_def)
    have "AnycastAPIPublicHostname cfg \<noteq> []"
    proof
      assume e: "AnycastAPIPublicHostname cfg = []"
      from r h e have "IdentifyAudience p [] cfg = a" by simp
      with T IdentifyAudience_empty [of p cfg] show False by simp
    qed
    moreover have "AnycastAPIPublicHostname cfg \<noteq> APIPublicHostname cfg"
    proof
      assume e: "AnycastAPIPublicHostname cfg = APIPublicHostname cfg"
      from r h e have "IdentifyAudience p (APIPublicHostname cfg) cfg = a" by simp
      with T IdentifyAudience_public [of p cfg] show False by simp
    qed
    ultimately show ?thesis using True T by (simp add: invertible_def)
  next
    case False
    with True show ?thesis by (simp add: invertible_def)
  qed
next
  case False
  have nd: "CHR ''.'' \<notin> set (AccountName a)"
    using IdentifyAudience_account_nodot [of p "Hostname a cfg" cfg] r by simp
  have v: "p (AccountName a)"
    using IdentifyAudience_account_valid [of p "Hostname a cfg" cfg] r False by simp
  let ?H = "if IsAnycast a then AnycastAPIPublicHostname cfg else APIPublicHostname cfg"
  have h: "Hostname a cfg = AccountName a @ ''.'' @ ?H"
    using False by (simp add: Hostname_def)
  have eq: "IdentifyAudience p (AccountName a @ ''.'' @ ?H) cfg = a"
    using r h by simp
  have acc: "AccountName (IdentifyAudience p (AccountName a @ ''.'' @ ?H) cfg) \<noteq> []"
    using eq False by simp
  have c1: "AccountName a @ ''.'' @ ?H \<noteq> APIPublicHostname cfg"
    using acc unfolding IdentifyAudience_join [OF nd] by (auto split: if_splits)
  have c2: "AccountName a @ ''.'' @ ?H \<noteq> AnycastAPIPublicHostname cfg"
    using acc unfolding IdentifyAudience_join [OF nd] by (auto split: if_splits)
  have c3: "?H \<noteq> []"
    using acc unfolding IdentifyAudience_join [OF nd] by (auto split: if_splits)
  have c4: "IsAnycast a \<Longrightarrow> AnycastAPIPublicHostname cfg \<noteq> APIPublicHostname cfg"
  proof
    assume an: "IsAnycast a" and e: "AnycastAPIPublicHostname cfg = APIPublicHostname cfg"
    have "\<not> IsAnycast (IdentifyAudience p (AccountName a @ ''.'' @ APIPublicHostname cfg) cfg)"
      unfolding IdentifyAudience_join [OF nd] using e by simp
    with eq an e show False by simp
  qed
  show ?thesis
    using False nd v c1 c2 c3 c4 by (cases "IsAnycast a") (simp_all add: invertible_def)
qed


text \<open>
  Claim C6, as the code has it. \<open>IdentifyAudience\<close> gives back the audience that
  \<open>Hostname\<close> was computed from exactly for the audiences and configurations that
  \<open>invertible\<close> describes: an anycast audience needs a configured anycast hostname
  different from the public hostname, and a domain-remapped audience needs an account
  name that \<open>IsAccountName\<close> accepts and that has no dot in it, a base hostname that
  is not empty, and a remapped hostname that is not the other well-known hostname. For
  every other audience or configuration the result differs from the audience.
\<close>

theorem Audience_roundtrip:
  "(IdentifyAudience isAccountName (Hostname a cfg) cfg = a) = invertible isAccountName a cfg"
  using Hostname_invertible [of isAccountName a cfg]
    Hostname_inverted_only [of isAccountName a cfg] by blast

text \<open>The anycast audience of the account \<open>library\<close>, with both hostnames configured.\<close>

theorem Audience_roundtrip_witness:
  "IdentifyAudience (\<lambda>name. name = ''library'')
     (Hostname \<lparr>IsAnycast = True, AccountName = ''library''\<rparr>
        \<lparr>APIPublicHostname = ''registry.example.org'',
         AnycastAPIPublicHostname = ''anycast.example.org''\<rparr>)
     \<lparr>APIPublicHostname = ''registry.example.org'',
      AnycastAPIPublicHostname = ''anycast.example.org''\<rparr> =
   \<lparr>IsAnycast = True, AccountName = ''library''\<rparr>"
  using Audience_roundtrip [of "\<lambda>name. name = ''library''"
      "\<lparr>IsAnycast = True, AccountName = ''library''\<rparr>"
      "\<lparr>APIPublicHostname = ''registry.example.org'',
        AnycastAPIPublicHostname = ''anycast.example.org''\<rparr>"]
  by (simp add: invertible_def)

text \<open>
  The claim as the specification words it, for every audience and every configuration,
  fails for the anycast audience of a deployment that has no anycast hostname: the
  hostname is empty and is identified as the default audience.
\<close>

theorem Audience_roundtrip_counterexample:
  "IdentifyAudience (\<lambda>name. True)
     (Hostname \<lparr>IsAnycast = True, AccountName = []\<rparr>
        \<lparr>APIPublicHostname = ''registry.example.org'', AnycastAPIPublicHostname = []\<rparr>)
     \<lparr>APIPublicHostname = ''registry.example.org'', AnycastAPIPublicHostname = []\<rparr> \<noteq>
   \<lparr>IsAnycast = True, AccountName = []\<rparr>"
  by (simp add: Hostname_def IdentifyAudience_def splitN2_def)

section \<open>Manifest lists: acceptable alternates\<close>

lemma listReferences_eq:
  "listReferences pf ms =
     map listEntryDescriptor (filter (\<lambda>m. Includes pf (listEntryPlatform m)) ms)"
  by (induction ms) simp_all

lemma listReferences_platform:
  "m \<in> set (listReferences pf ms) \<Longrightarrow> DescPlatform m \<noteq> None"
  by (induction ms) (auto simp: listEntryDescriptor_def split: if_splits)

lemma listAlternates_eq:
  "\<forall>m \<in> set ds. DescPlatform m \<noteq> None \<Longrightarrow>
   listAlternates t ds =
     Some (if t = DockerV2ListMediaType then filter isLinuxAmd64Schema2 ds else [])"
  by (induction ds) (auto simp: isLinuxAmd64Schema2_def)

lemma AcceptableAlternates_list:
  "AcceptableAlternates (v2ManifestListAdapter l) pf =
     Some (if list_MediaType l = DockerV2ListMediaType
           then filter isLinuxAmd64Schema2 (ManifestReferences (v2ManifestListAdapter l) pf)
           else [])"
  using listAlternates_eq [of "listReferences pf (list_Manifests l)" "list_MediaType l"]
    listReferences_platform [of _ pf "list_Manifests l"]
  by auto

lemma ParseManifest_adapter:
  assumes "ParseManifest ps mediaType contents = Inr pm"
  shows "if mediaType = DockerV2ListMediaType then \<exists>l. pm = v2ManifestListAdapter l
         else (\<exists>m. pm = v2ManifestAdapter m) \<or> (\<exists>m. pm = ociIndexAdapter m) \<or>
              (\<exists>m. pm = ociManifestAdapter m)"
  using assms by (auto simp: ParseManifest_def split: if_splits sum.splits)

text \<open>
  Claim C9, as the code has it. \<open>ParseManifest\<close> picks the adapter by the media
  type it is called with, and a manifest that it accepted under the Docker v2 list media
  type is a manifest list. The loop of \<open>AcceptableAlternates\<close> is guarded by the
  \<open>mediaType\<close> field of the list's own document: when that field is the Docker v2
  list media type, the acceptable alternates are exactly the children that pass the
  platform filter, have the Docker v2 schema 2 media type and are for \<open>linux/amd64\<close>,
  in the order of the list (the children that pass the filter are the entries whose
  platform the filter includes); when the field is anything else, or missing, the list
  has no alternates. A manifest accepted under one of the other three media types has no
  alternates.
\<close>

theorem AcceptableAlternates_docker_list_only:
  assumes "ParseManifest ps mediaType contents = Inr pm"
  shows "if mediaType = DockerV2ListMediaType
         then \<exists>l. pm = v2ManifestListAdapter l \<and>
                ManifestReferences pm pf =
                  map listEntryDescriptor
                    (filter (\<lambda>m. Includes pf (listEntryPlatform m)) (list_Manifests l)) \<and>
                AcceptableAlternates pm pf =
                  Some (if list_MediaType l = DockerV2ListMediaType
                        then filter isLinuxAmd64Schema2 (ManifestReferences pm pf)
                        else [])
         else AcceptableAlternates pm pf = Some []"
proof (cases "mediaType = DockerV2ListMediaType")
  case True
  with ParseManifest_adapter [OF assms] obtain l where "pm = v2ManifestListAdapter l"
    by auto
  with True show ?thesis
    using AcceptableAlternates_list [of l pf] listReferences_eq [of pf "list_Manifests l"]
    by simp
next
  case False
  with ParseManifest_adapter [OF assms] show ?thesis by auto
qed

text \<open>
  A list with a \<open>linux/amd64\<close> and a \<open>linux/arm\<close> child, parsed under the list
  media type, with no platform filter: the \<open>linux/amd64\<close> child is the one alternate.
\<close>

theorem AcceptableAlternates_docker_list_only_witness:
  "ParseManifest
     \<lparr>Schema2ListFromManifest = (\<lambda>c. Inr
        \<lparr>list_SchemaVersion = 2, list_MediaType = DockerV2ListMediaType,
         list_Manifests =
           [\<lparr>s2_MediaType = DockerV2Schema2MediaType, s2_Size = 592, s2_Digest = ''sha256:e255'',
             s2_URLs = [], s2_Architecture = ''amd64'', s2_OS = ''linux'', s2_OSVersion = [],
             s2_OSFeatures = None, s2_Variant = [], s2_Features = None\<rparr>,
            \<lparr>s2_MediaType = DockerV2Schema2MediaType, s2_Size = 592, s2_Digest = ''sha256:207a'',
             s2_URLs = [], s2_Architecture = ''arm'', s2_OS = ''linux'', s2_OSVersion = [],
             s2_OSFeatures = None, s2_Variant = [], s2_Features = None\<rparr>]\<rparr>),
      Schema2FromManifest = (\<lambda>c. Inl (Err ''not an image manifest'')),
      OCI1IndexFromManifest = (\<lambda>c. Inl (Err ''not an index'')),
      OCI1FromManifest = (\<lambda>c. Inl (Err ''not an image manifest''))\<rparr>
     DockerV2ListMediaType ''{}'' =
   Inr (v2ManifestListAdapter
     \<lparr>list_SchemaVersion = 2, list_MediaType = DockerV2ListMediaType,
      list_Manifests =
        [\<lparr>s2_MediaType = DockerV2Schema2MediaType, s2_Size = 592, s2_Digest = ''sha256:e255'',
          s2_URLs = [], s2_Architecture = ''amd64'', s2_OS = ''linux'', s2_OSVersion = [],
          s2_OSFeatures = None, s2_Variant = [], s2_Features = None\<rparr>,
         \<lparr>s2_MediaType = DockerV2Schema2MediaType, s2_Size = 592, s2_Digest = ''sha256:207a'',
          s2_URLs = [], s2_Architecture = ''arm'', s2_OS = ''linux'', s2_OSVersion = [],
          s2_OSFeatures = None, s2_Variant = [], s2_Features = None\<rparr>]\<rparr>) \<and>
   AcceptableAlternates (v2ManifestListAdapter
     \<lparr>list_SchemaVersion = 2, list_MediaType = DockerV2ListMediaType,
      list_Manifests =
        [\<lparr>s2_MediaType = DockerV2Schema2MediaType, s2_Size = 592, s2_Digest = ''sha256:e255'',
          s2_URLs = [], s2_Architecture = ''amd64'', s2_OS = ''linux'', s2_OSVersion = [],
          s2_OSFeatures = None, s2_Variant = [], s2_Features = None\<rparr>,
         \<lparr>s2_MediaType = DockerV2Schema2MediaType, s2_Size = 592, s2_Digest = ''sha256:207a'',
          s2_URLs = [], s2_Architecture = ''arm'', s2_OS = ''linux'', s2_OSVersion = [],
          s2_OSFeatures = None, s2_Variant = [], s2_Features = None\<rparr>]\<rparr>) [] =
   Some [\<lparr>MediaType = DockerV2Schema2MediaType, Digest = ''sha256:e255'', Size = 592,
          URLs = [],
          DescPlatform = Some \<lparr>Architecture = ''amd64'', OS = ''linux'', OSVersion = [],
            OSFeatures = None, Variant = []\<rparr>\<rparr>]"
    (is "ParseManifest ?ps _ _ = Inr ?pm \<and> _")
proof -
  have p: "ParseManifest ?ps DockerV2ListMediaType ''{}'' = Inr ?pm"
    by (simp add: ParseManifest_def)
  from AcceptableAlternates_docker_list_only [OF p, of "[]"] p show ?thesis
    by (simp add: Includes_def listEntryPlatform_def listEntryDescriptor_def
        isLinuxAmd64Schema2_def)
qed

text \<open>
  The claim as the specification words it, for every parsed Docker v2 manifest list,
  fails for a list whose document names no media type of its own: it is parsed under the
  Docker v2 list media type, its one child passes the (empty) platform filter, has the
  Docker v2 schema 2 media type and is for \<open>linux/amd64\<close>, and yet the list has no
  alternates.
\<close>

theorem AcceptableAlternates_docker_list_only_counterexample:
  "ParseManifest (exListParsers exUntypedList) DockerV2ListMediaType ''{}'' =
     Inr (v2ManifestListAdapter exUntypedList) \<and>
   filter isLinuxAmd64Schema2 (ManifestReferences (v2ManifestListAdapter exUntypedList) []) =
     [\<lparr>MediaType = DockerV2Schema2MediaType, Digest = ''sha256:e255'', Size = 592, URLs = [],
       DescPlatform = Some \<lparr>Architecture = ''amd64'', OS = ''linux'', OSVersion = [],
         OSFeatures = None, Variant = []\<rparr>\<rparr>] \<and>
   AcceptableAlternates (v2ManifestListAdapter exUntypedList) [] = Some []"
  by (simp add: ParseManifest_def exListParsers_def exUntypedList_def exAmd64Entry_def
      Includes_def listEntryPlatform_def listEntryDescriptor_def isLinuxAmd64Schema2_def
      DockerV2ListMediaType_def)
section \<open>Account names that are reserved\<close>

text \<open>
  A name that one of the three checks recognises is refused before the database is
  touched, whatever the rest of the function would do; the status is 422 for a name
  that is not empty.
\<close>

lemma CreateOrUpdateAccount_reserved:
  assumes "Name account = [] \<or> HasPrefix (Name account) ''keppel'' \<or>
           looksLikeAPIVersionRx (Name account)"
  shows "\<exists>rerr. CreateOrUpdateAccount proceed db account = (Inl rerr, db) \<and>
           (if Name account = [] then rerr = AsRegistryV2Error ErrAccountNameEmpty
            else Status rerr = Some 422)"
  using assms
  by (auto simp: CreateOrUpdateAccount_def WithStatus_def StatusUnprocessableEntity_def)

lemma looksLikeAPIVersionRx_matches_v_digits:
  "looksLikeAPIVersionRx s \<Longrightarrow> matches_v_digits s"
  by (auto simp: looksLikeAPIVersionRx_def matches_v_digits_def list_all_iff
      split: list.splits)

text \<open>
  Claim C3 at the account name \<open>v10\<close>. The name is of the shape \<open>v[0-9]+\<close> that
  the claim reserves, but the regular expression of the code wants every digit after the
  first to be one of 1 to 9 and does not match it: the name passes the three checks, and
  the request goes on to the lookup and the creation of the account as for any other
  name.
\<close>

theorem CreateOrUpdateAccount_v10_passes:
  "matches_v_digits ''v10'' \<and> \<not> looksLikeAPIVersionRx ''v10'' \<and>
   CreateOrUpdateAccount proceed db \<lparr>Name = ''v10'', AuthTenantID = tenant\<rparr> =
     proceed db \<lparr>Name = ''v10'', AuthTenantID = tenant\<rparr>"
  by (simp add: CreateOrUpdateAccount_def matches_v_digits_def looksLikeAPIVersionRx_def
      HasPrefix_def)

section \<open>Anycast forwarding and its loop protection\<close>

text \<open>
  Every forwarded request carries the header \<open>X-Keppel-Forwarded-By\<close> with the
  forwarding peer's hostname. In the query it carries the hostname under the name
  \<open>forwarded-by\<close>; a query parameter \<open>X-Keppel-Forwarded-By\<close> is passed on as the
  client sent it, and is not added.
\<close>

lemma buildProxyRequest_header:
  "Get (pr_Header (buildProxyRequest cfg r peer)) ''X-Keppel-Forwarded-By'' =
     APIPublicHostname cfg"
  by (simp add: buildProxyRequest_def Get_def Set_value_def)

lemma buildProxyRequest_query:
  "Get (pr_Query (buildProxyRequest cfg r peer)) ''forwarded-by'' = APIPublicHostname cfg"
  by (simp add: buildProxyRequest_def Get_def Set_value_def)

lemma buildProxyRequest_query_marker:
  "Get (pr_Query (buildProxyRequest cfg r peer)) ''X-Keppel-Forwarded-By'' =
     Get (Query r) ''X-Keppel-Forwarded-By''"
  by (simp add: buildProxyRequest_def Get_def Set_value_def)

text \<open>
  The handler refuses a request whose query has \<open>X-Keppel-Forwarded-By\<close>: once the
  primary is found, it returns an error and neither sends nor writes anything.
\<close>

lemma reverseProxyTokenReqToUpstream_blocked:
  assumes "Get (Query r) ''X-Keppel-Forwarded-By'' \<noteq> []"
    and "findPrimaryAccount accountName = Inr primaryHostName"
  shows "reverseProxyTokenReqToUpstream findPrimaryAccount send cfg w r audience accountName =
     (Some (Err ''request blocked by reverse-proxy loop protection''), w)"
  using assms by (simp add: reverseProxyTokenReqToUpstream_def)

text \<open>
  A request that a peer forwarded bears the marker in its header and, in its query, under
  \<open>forwarded-by\<close>. The handler looks for it in the query under
  \<open>X-Keppel-Forwarded-By\<close>, where the forwarding peer never puts it: unless the client
  itself sent that query parameter, the forwarded request is forwarded again.
\<close>

lemma forwarded_request_forwarded_again:
  assumes "Get (Query r) ''X-Keppel-Forwarded-By'' = []"
    and "findPrimaryAccount accountName = Inr primaryHostName"
  shows "reverseProxyTokenReqToUpstream findPrimaryAccount send cfgB w
           (asReceived (buildProxyRequest cfgA r peerB)) audience accountName =
         ReverseProxyAnycastRequestToPeer send cfgB w
           (asReceived (buildProxyRequest cfgA r peerB))
           (MapPeerHostname audience primaryHostName)"
  using assms
  by (simp add: reverseProxyTokenReqToUpstream_def asReceived_def
      buildProxyRequest_query_marker)

text \<open>
  Claim C2 at a token request for the account \<open>library\<close> that the peer
  \<open>keppel-a.example.org\<close> forwarded to \<open>keppel-b.example.org\<close>, where the
  federation driver of the second peer names the first as the primary. The request
  bears the header \<open>X-Keppel-Forwarded-By\<close> of the first peer; the handler of the
  second does not return the error of the loop protection: it sends the request on, back
  to the first peer, and passes the answer to its caller.
\<close>

theorem anycast_token_request_loops:
  "Get (Header (asReceived (buildProxyRequest
       \<lparr>APIPublicHostname = ''keppel-a.example.org'',
        AnycastAPIPublicHostname = ''keppel.example.org''\<rparr>
       \<lparr>Method = ''GET'', URLPath = ''/keppel/v1/auth'',
        Query = [''service'' \<mapsto> [''keppel.example.org''],
                 ''scope'' \<mapsto> [''repository:library/alpine:pull'']],
        Header = Map.empty\<rparr>
       ''keppel-b.example.org''))) ''X-Keppel-Forwarded-By'' = ''keppel-a.example.org'' \<and>
   reverseProxyTokenReqToUpstream
     (\<lambda>accountName. Inr ''keppel-a.example.org'')
     (\<lambda>req. Inr \<lparr>StatusCode = 200, resp_Header = Map.empty, Body = pr_Host req\<rparr>)
     \<lparr>APIPublicHostname = ''keppel-b.example.org'',
      AnycastAPIPublicHostname = ''keppel.example.org''\<rparr>
     None
     (asReceived (buildProxyRequest
       \<lparr>APIPublicHostname = ''keppel-a.example.org'',
        AnycastAPIPublicHostname = ''keppel.example.org''\<rparr>
       \<lparr>Method = ''GET'', URLPath = ''/keppel/v1/auth'',
        Query = [''service'' \<mapsto> [''keppel.example.org''],
                 ''scope'' \<mapsto> [''repository:library/alpine:pull'']],
        Header = Map.empty\<rparr>
       ''keppel-b.example.org''))
     \<lparr>IsAnycast = True, AccountName = []\<rparr>
     ''library'' =
   (None, Some \<lparr>StatusCode = 200, resp_Header = Map.empty, Body = ''keppel-a.example.org''\<rparr>)"
  by (simp add: reverseProxyTokenReqToUpstream_def ReverseProxyAnycastRequestToPeer_def
      asReceived_def buildProxyRequest_def Get_def Set_value_def MapPeerHostname_def)

section \<open>Chunked uploads of known length\<close>

declare foreachChunkWithKnownSize.simps [simp del]

declare FormatUint10.simps [simp del]

lemma unat_chunkSizeBytes_pos: "0 < unat chunkSizeBytes"
  by (simp add: chunkSizeBytes_def)

lemma ceil_div_small:
  fixes C m :: nat
  assumes "0 < C" and "m \<le> C"
  shows "max 1 ((m + (C - 1)) div C) = 1"
proof -
  have "m + (C - 1) < C + C" using assms by simp
  then have "(m + (C - 1)) div C < 2"
    using assms(1) by (simp add: less_mult_imp_div_less mult_2_right)
  then show ?thesis by simp
qed

lemma ceil_div_step:
  fixes C m :: nat
  assumes "0 < C" and "C < m"
  shows "max 1 ((m + (C - 1)) div C) = Suc (max 1 ((m - C + (C - 1)) div C))"
proof -
  have "(m + (C - 1)) div C = Suc ((m + (C - 1) - C) div C)"
    using assms by (intro le_div_geq) simp_all
  moreover have "m + (C - 1) - C = m - C + (C - 1)"
    using assms by simp
  moreover have "C \<le> m - C + (C - 1)" using assms by simp
  then have "1 \<le> (m - C + (C - 1)) div C"
    using assms(1) by (simp add: Suc_le_eq div_greater_zero_iff)
  ultimately show ?thesis by simp
qed

lemma numChunks_small: "L \<le> chunkSizeBytes \<Longrightarrow> numChunks L = 1"
  unfolding numChunks_def
  by (rule ceil_div_small [OF unat_chunkSizeBytes_pos]) (simp add: word_le_nat_alt)

lemma numChunks_large:
  assumes "chunkSizeBytes < L"
  shows "numChunks L = Suc (numChunks (L - chunkSizeBytes))"
proof -
  have lt: "unat chunkSizeBytes < unat L"
    using assms by (simp add: word_less_nat_alt)
  have "chunkSizeBytes \<le> L" using assms by simp
  then have u: "unat (L - chunkSizeBytes) = unat L - unat chunkSizeBytes"
    by (rule unat_sub)
  show ?thesis
    unfolding numChunks_def u
    by (rule ceil_div_step [OF unat_chunkSizeBytes_pos lt])
qed

lemma numChunks_pos: "0 < numChunks L"
  by (simp add: numChunks_def)

lemma expectedCalls_small:
  "L \<le> chunkSizeBytes \<Longrightarrow> expectedCalls n L = [(n + 1, L, Whole)]"
  by (simp add: expectedCalls_def numChunks_small)

lemma expectedCalls_large:
  assumes "chunkSizeBytes < L"
  shows "expectedCalls n L =
    (n + 1, chunkSizeBytes, LimitReader chunkSizeBytes) # expectedCalls (n + 1) (L - chunkSizeBytes)"
proof -
  let ?k = "numChunks (L - chunkSizeBytes)"
  have k: "numChunks L = Suc ?k" by (rule numChunks_large [OF assms])
  have kp: "0 < ?k" by (rule numChunks_pos)
  have up: "[1 ..< Suc ?k + 1] = 1 # map Suc [1 ..< ?k + 1]"
    using kp by (simp add: upt_conv_Cons map_Suc_upt del: upt_Suc)
  have w: "L - of_nat ?k * chunkSizeBytes = L - chunkSizeBytes - of_nat (?k - 1) * chunkSizeBytes"
  proof -
    have "of_nat ?k = (of_nat (?k - 1) + 1 :: 64 word)"
      using kp by (metis Suc_pred' of_nat_Suc add.commute)
    then show ?thesis by (simp add: algebra_simps)
  qed
  show ?thesis
    unfolding expectedCalls_def k up
    using kp w by (simp add: o_def add.assoc add.commute)
qed

lemma expectedAppendCalls_small:
  "L \<le> chunkSizeBytes \<Longrightarrow> expectedAppendCalls n L = [(n + 1, Some L, Whole)]"
  by (simp add: expectedAppendCalls_def expectedCalls_small)

lemma expectedAppendCalls_large:
  "chunkSizeBytes < L \<Longrightarrow>
   expectedAppendCalls n L =
     (n + 1, Some chunkSizeBytes, LimitReader chunkSizeBytes) #
     expectedAppendCalls (n + 1) (L - chunkSizeBytes)"
  by (simp add: expectedAppendCalls_def expectedCalls_large)

lemma appendKnown_recording:
  "appendKnown (recording sd) account chunk len (u, (d, calls)) =
     (fst (sd d account (StorageID u) (NumChunks u + 1) (Some len) chunk),
      (u\<lparr>NumChunks := NumChunks u + 1, SizeBytes := SizeBytes u + len\<rparr>,
       (snd (sd d account (StorageID u) (NumChunks u + 1) (Some len) chunk),
        calls @ [((NumChunks u + 1, Some len, chunk),
                  fst (sd d account (StorageID u) (NumChunks u + 1) (Some len) chunk))])))"
  by (cases "sd d account (StorageID u) (NumChunks u + 1) (Some len) chunk")
     (simp add: appendKnown_def recording_def Let_def)

lemma appendKnown_plain:
  "appendKnown sd account chunk len (u, d) =
     (fst (sd d account (StorageID u) (NumChunks u + 1) (Some len) chunk),
      (u\<lparr>NumChunks := NumChunks u + 1, SizeBytes := SizeBytes u + len\<rparr>,
       snd (sd d account (StorageID u) (NumChunks u + 1) (Some len) chunk)))"
  by (cases "sd d account (StorageID u) (NumChunks u + 1) (Some len) chunk")
     (simp add: appendKnown_def Let_def)

text \<open>
  The run of the loop with a recording driver, from any upload, driver state and record
  of earlier calls: it adds at least one call; the calls that it adds are the first of
  the expected calls, in their order; all but the last of them succeeded, and the error
  of the last one is the result. The driver itself, without the record, goes through
  the same run. If the result is no error, all expected calls were made.
\<close>

lemma foreachChunk_recorded:
  assumes "foreachChunkWithKnownSize L (appendKnown (recording sd) account) (u, (d, calls0)) =
             (err, (u', (d', calls')))"
  shows "\<exists>new. calls' = calls0 @ new \<and> new \<noteq> [] \<and>
           map fst new = take (length new) (expectedAppendCalls (NumChunks u) L) \<and>
           length new \<le> numChunks L \<and>
           err = snd (last new) \<and> (\<forall>x \<in> set (butlast new). snd x = None) \<and>
           foreachChunkWithKnownSize L (appendKnown sd account) (u, d) = (err, (u', d')) \<and>
           (err = None \<longrightarrow>
              length new = numChunks L \<and>
              u' = u\<lparr>NumChunks := NumChunks u + of_nat (numChunks L),
                      SizeBytes := SizeBytes u + L\<rparr> \<and>
              d' = runCalls sd account (StorageID u) d (expectedCalls (NumChunks u) L))"
  using assms
proof (induction "unat L" arbitrary: L u d calls0 rule: less_induct)
  case less
  show ?case
  proof (cases "chunkSizeBytes < L")
    case False
    then have le: "L \<le> chunkSizeBytes" by simp
    let ?r = "sd d account (StorageID u) (NumChunks u + 1) (Some L) Whole"
    have "foreachChunkWithKnownSize L (appendKnown (recording sd) account) (u, (d, calls0)) =
       appendKnown (recording sd) account Whole L (u, (d, calls0))"
      using False by (subst foreachChunkWithKnownSize.simps) simp
    with less.prems have r: "err = fst ?r"
      "u' = u\<lparr>NumChunks := NumChunks u + 1, SizeBytes := SizeBytes u + L\<rparr>"
      "d' = snd ?r" "calls' = calls0 @ [((NumChunks u + 1, Some L, Whole), fst ?r)]"
      by (auto simp add: appendKnown_recording)
    have p: "foreachChunkWithKnownSize L (appendKnown sd account) (u, d) = (err, (u', d'))"
      using False r by (subst foreachChunkWithKnownSize.simps) (simp add: appendKnown_plain)
    show ?thesis
      apply (rule exI [of _ "[((NumChunks u + 1, Some L, Whole), fst ?r)]"])
      using r p
      by (simp add: expectedAppendCalls_small [OF le] expectedCalls_small [OF le]
          numChunks_small [OF le] runCalls_def)
  next
    case True
    let ?C = chunkSizeBytes
    let ?r = "sd d account (StorageID u) (NumChunks u + 1) (Some ?C) (LimitReader ?C)"
    let ?u = "u\<lparr>NumChunks := NumChunks u + 1, SizeBytes := SizeBytes u + ?C\<rparr>"
    let ?c = "((NumChunks u + 1, Some ?C, LimitReader ?C), fst ?r)"
    have "?C \<le> L" using True by simp
    then have "unat (L - ?C) = unat L - unat ?C" by (rule unat_sub)
    moreover have "unat ?C < unat L" using True by (simp add: word_less_nat_alt)
    ultimately have smaller: "unat (L - ?C) < unat L"
      using unat_chunkSizeBytes_pos by simp
    have first: "appendKnown (recording sd) account (LimitReader ?C) ?C (u, (d, calls0)) =
        (fst ?r, (?u, (snd ?r, calls0 @ [?c])))"
      by (simp add: appendKnown_recording)
    have first': "appendKnown sd account (LimitReader ?C) ?C (u, d) = (fst ?r, (?u, snd ?r))"
      by (simp add: appendKnown_plain)
    show ?thesis
    proof (cases "fst ?r")
      case (Some e)
      have "foreachChunkWithKnownSize L (appendKnown (recording sd) account) (u, (d, calls0)) =
          (Some e, (?u, (snd ?r, calls0 @ [?c])))"
        using True Some by (subst foreachChunkWithKnownSize.simps) (simp add: first)
      with less.prems have r: "err = Some e" "u' = ?u" "d' = snd ?r" "calls' = calls0 @ [?c]"
        by auto
      have p: "foreachChunkWithKnownSize L (appendKnown sd account) (u, d) = (err, (u', d'))"
        using True Some r by (subst foreachChunkWithKnownSize.simps) (simp add: first')
      show ?thesis
        apply (rule exI [of _ "[?c]"])
        using r p Some numChunks_pos [of L]
        by (simp add: expectedAppendCalls_large [OF True] Suc_le_eq)
    next
      case None
      have "foreachChunkWithKnownSize L (appendKnown (recording sd) account) (u, (d, calls0)) =
          foreachChunkWithKnownSize (L - ?C) (appendKnown (recording sd) account)
            (?u, (snd ?r, calls0 @ [?c]))"
        using True None by (subst foreachChunkWithKnownSize.simps) (simp add: first)
      with less.prems
      have "foreachChunkWithKnownSize (L - ?C) (appendKnown (recording sd) account)
            (?u, (snd ?r, calls0 @ [?c])) = (err, (u', (d', calls')))" by simp
      from less.hyps [OF smaller this] obtain new where
        n0: "calls' = (calls0 @ [?c]) @ new \<and> new \<noteq> [] \<and>
          map fst new = take (length new) (expectedAppendCalls (NumChunks ?u) (L - ?C)) \<and>
          length new \<le> numChunks (L - ?C) \<and>
          err = snd (last new) \<and> (\<forall>x \<in> set (butlast new). snd x = None) \<and>
          foreachChunkWithKnownSize (L - ?C) (appendKnown sd account) (?u, snd ?r) = (err, (u', d')) \<and>
          (err = None \<longrightarrow>
              length new = numChunks (L - ?C) \<and>
              u' = ?u\<lparr>NumChunks := NumChunks ?u + of_nat (numChunks (L - ?C)),
                      SizeBytes := SizeBytes ?u + (L - ?C)\<rparr> \<and>
              d' = runCalls sd account (StorageID ?u) (snd ?r)
                     (expectedCalls (NumChunks ?u) (L - ?C)))" ..
      note n = n0 [THEN conjunct1]
        n0 [THEN conjunct2, THEN conjunct1]
        n0 [THEN conjunct2, THEN conjunct2, THEN conjunct1]
        n0 [THEN conjunct2, THEN conjunct2, THEN conjunct2, THEN conjunct1]
        n0 [THEN conjunct2, THEN conjunct2, THEN conjunct2, THEN conjunct2, THEN conjunct1]
        n0 [THEN conjunct2, THEN conjunct2, THEN conjunct2, THEN conjunct2, THEN conjunct2,
            THEN conjunct1]
        n0 [THEN conjunct2, THEN conjunct2, THEN conjunct2, THEN conjunct2, THEN conjunct2,
            THEN conjunct2, THEN conjunct1]
        n0 [THEN conjunct2, THEN conjunct2, THEN conjunct2, THEN conjunct2, THEN conjunct2,
            THEN conjunct2, THEN conjunct2]
      have p: "foreachChunkWithKnownSize L (appendKnown sd account) (u, d) = (err, (u', d'))"
        using True None n(7) by (subst foreachChunkWithKnownSize.simps) (simp add: first')
      have b: "\<forall>x \<in> set (butlast (?c # new)). snd x = None"
        using n(2,6) None by simp
      show ?thesis
        apply (rule exI [of _ "?c # new"])
        using n(1-5,8) p b
        by (simp add: expectedAppendCalls_large [OF True] expectedCalls_large [OF True]
            numChunks_large [OF True] runCalls_def add.assoc del: butlast.simps)
    qed
  qed
qed

lemma expectedCalls_length: "length (expectedCalls n L) = numChunks L"
  by (simp add: expectedCalls_def)

lemma expectedCalls_number:
  "i < numChunks L \<Longrightarrow> fst (expectedCalls n L ! i) = n + of_nat (i + 1)"
  by (simp add: expectedCalls_def add.commute del: upt_Suc)

lemma expectedCalls_bounded:
  "\<forall>(m, len, c) \<in> set (expectedCalls n L). len \<le> chunkSizeBytes"
proof (induction "unat L" arbitrary: L n rule: less_induct)
  case less
  show ?case
  proof (cases "chunkSizeBytes < L")
    case True
    have "chunkSizeBytes \<le> L" using True by simp
    then have "unat (L - chunkSizeBytes) = unat L - unat chunkSizeBytes"
      by (rule unat_sub)
    moreover have "unat chunkSizeBytes < unat L"
      using True by (simp add: word_less_nat_alt)
    ultimately have "unat (L - chunkSizeBytes) < unat L"
      using unat_chunkSizeBytes_pos by simp
    from less [OF this, of "n + 1"] show ?thesis
      unfolding expectedCalls_large [OF True] by simp
  next
    case False
    then have le: "L \<le> chunkSizeBytes" by simp
    then show ?thesis unfolding expectedCalls_small [OF le] by simp
  qed
qed

lemma expectedCalls_sum:
  "sum_list (map (\<lambda>(m, len, c). unat len) (expectedCalls n L)) = unat L"
proof (induction "unat L" arbitrary: L n rule: less_induct)
  case less
  show ?case
  proof (cases "chunkSizeBytes < L")
    case True
    have "chunkSizeBytes \<le> L" using True by simp
    then have u: "unat (L - chunkSizeBytes) = unat L - unat chunkSizeBytes"
      by (rule unat_sub)
    have lt: "unat chunkSizeBytes < unat L"
      using True by (simp add: word_less_nat_alt)
    have "unat (L - chunkSizeBytes) < unat L"
      using unat_chunkSizeBytes_pos u lt by simp
    from less [OF this, of "n + 1"] show ?thesis
      unfolding expectedCalls_large [OF True] using u lt by simp
  next
    case False
    then have le: "L \<le> chunkSizeBytes" by simp
    then show ?thesis unfolding expectedCalls_small [OF le] by simp
  qed
qed

text \<open>
  Claim C8, as the code has it. For an input of known length \<open>L\<close>, an upload, and
  any storage driver, take the calls of the driver's append action that a run of
  \<open>AppendToBlob\<close> makes, with the errors they return. If none of these calls fails,
  then the run returns no error and the calls are exactly the expected ones, in their
  order: their number is \<open>max(1, ceil(L / 500 MiB))\<close>; the chunk numbers are
  consecutive and start after the chunks that the upload has already (at 1 for a fresh
  upload; they are 32-bit numbers and wrap around as such); every chunk length is at most
  500 MiB and the lengths add up to \<open>L\<close>. \<open>NumChunks\<close> of the upload grows by the
  number of calls and \<open>SizeBytes\<close> by \<open>L\<close>; the driver without the record of
  calls goes through the same run. An input of 0 bytes gives one call, of length 0.
\<close>

theorem AppendToBlob_known_length:
  assumes run: "AppendToBlob (recording sd) appendUnknown account upload (Some L) (d, []) =
                  (err, (upload', (d', calls)))"
    and ok: "\<forall>(call, e) \<in> set calls. e = None"
  shows "err = None \<and>
    map fst calls = map (\<lambda>(m, len, chunk). (m, Some len, chunk)) (expectedCalls (NumChunks upload) L) \<and>
    upload' = upload\<lparr>NumChunks := NumChunks upload + of_nat (numChunks L),
                      SizeBytes := SizeBytes upload + L\<rparr> \<and>
    d' = runCalls sd account (StorageID upload) d (expectedCalls (NumChunks upload) L) \<and>
    AppendToBlob sd appendUnknown' account upload (Some L) d = (None, (upload', d')) \<and>
    length calls = max 1 ((unat L + (500 * 2 ^ 20 - 1)) div (500 * 2 ^ 20)) \<and>
    numChunks L = max 1 ((unat L + (500 * 2 ^ 20 - 1)) div (500 * 2 ^ 20)) \<and>
    (\<forall>i < numChunks L.
       fst (expectedCalls (NumChunks upload) L ! i) = NumChunks upload + of_nat (i + 1)) \<and>
    (\<forall>(m, len, c) \<in> set (expectedCalls (NumChunks upload) L). unat len \<le> 500 * 2 ^ 20) \<and>
    sum_list (map (\<lambda>(m, len, c). unat len) (expectedCalls (NumChunks upload) L)) = unat L \<and>
    (L = 0 \<longrightarrow> expectedCalls (NumChunks upload) L = [(NumChunks upload + 1, 0, Whole)])"
proof -
  have c: "unat chunkSizeBytes = 500 * 2 ^ 20" by (simp add: chunkSizeBytes_def)
  have n: "numChunks L = max 1 ((unat L + (500 * 2 ^ 20 - 1)) div (500 * 2 ^ 20))"
    unfolding numChunks_def c ..
  have b: "\<forall>(m, len, c) \<in> set (expectedCalls (NumChunks upload) L). unat len \<le> 500 * 2 ^ 20"
    using expectedCalls_bounded [of "NumChunks upload" L] unfolding word_le_nat_alt c .
  have z: "L = 0 \<longrightarrow> expectedCalls (NumChunks upload) L = [(NumChunks upload + 1, 0, Whole)]"
    using expectedCalls_small [of L "NumChunks upload"] by auto
  from run have "foreachChunkWithKnownSize L (appendKnown (recording sd) account) (upload, (d, [])) =
      (err, (upload', (d', calls)))" by (simp add: AppendToBlob_def)
  from foreachChunk_recorded [OF this] obtain new where
    r: "calls = new" "new \<noteq> []"
      "map fst new = take (length new) (expectedAppendCalls (NumChunks upload) L)"
      "err = snd (last new)"
      "foreachChunkWithKnownSize L (appendKnown sd account) (upload, d) = (err, (upload', d'))"
      "err = None \<longrightarrow>
         length new = numChunks L \<and>
         upload' = upload\<lparr>NumChunks := NumChunks upload + of_nat (numChunks L),
                           SizeBytes := SizeBytes upload + L\<rparr> \<and>
         d' = runCalls sd account (StorageID upload) d (expectedCalls (NumChunks upload) L)"
    by auto
  have "last calls \<in> set calls" using r(1,2) by simp
  with ok have e: "err = None" using r(1,4) by (auto simp: case_prod_beta)
  with r(6) have f: "length calls = numChunks L"
    "upload' = upload\<lparr>NumChunks := NumChunks upload + of_nat (numChunks L),
                       SizeBytes := SizeBytes upload + L\<rparr>"
    "d' = runCalls sd account (StorageID upload) d (expectedCalls (NumChunks upload) L)"
    using r(1) by simp_all
  have m: "map fst calls =
      map (\<lambda>(m, len, chunk). (m, Some len, chunk)) (expectedCalls (NumChunks upload) L)"
    using r(1,3) f(1) expectedCalls_length [of "NumChunks upload" L]
    by (simp add: expectedAppendCalls_def)
  have a: "AppendToBlob sd appendUnknown' account upload (Some L) d = (None, (upload', d'))"
    using r(5) e by (simp add: AppendToBlob_def)
  from e m f(2,3) a f(1) n b z show ?thesis
    using expectedCalls_number [of _ L "NumChunks upload"]
      expectedCalls_sum [of "NumChunks upload" L]
    by (simp del: of_nat_Suc of_nat_add)
qed

text \<open>
  What the run does when a call fails is in \<open>foreachChunk_recorded\<close>: it ends with the
  first call that fails, and the calls up to there are the first of the expected calls.
\<close>

lemma AppendToBlob_known_length_calls:
  assumes "AppendToBlob (recording sd) appendUnknown account upload (Some L) (d, []) =
             (err, (upload', (d', calls)))"
  shows "calls \<noteq> [] \<and> length calls \<le> numChunks L \<and>
    map fst calls = take (length calls) (expectedAppendCalls (NumChunks upload) L) \<and>
    err = snd (last calls) \<and> (\<forall>x \<in> set (butlast calls). snd x = None)"
proof -
  from assms have "foreachChunkWithKnownSize L (appendKnown (recording sd) account) (upload, (d, [])) =
      (err, (upload', (d', calls)))" by (simp add: AppendToBlob_def)
  from foreachChunk_recorded [OF this] show ?thesis by auto
qed

text \<open>
  A fresh upload of 500 MiB and one byte into the in-memory driver, which refuses chunks
  that come out of order: two calls, the first for a full chunk behind a
  \<open>LimitReader\<close>, and neither fails.
\<close>

lemma exRun:
  "AppendToBlob (recording inMemory_AppendToBlob) (\<lambda>a s. (None, s)) ''library''
     \<lparr>StorageID = ''sid'', SizeBytes = 0, NumChunks = 0\<rparr> (Some 524288001) (exInMemory, []) =
   (None,
    (\<lparr>StorageID = ''sid'', SizeBytes = 524288001, NumChunks = 2\<rparr>,
     (\<lparr>mem_blobs = [''library/sid'' \<mapsto> take 524288000 exInput @ drop 524288000 exInput],
       mem_blobChunkCounts = [''library/sid'' \<mapsto> 2], mem_input = []\<rparr>,
      [((1, Some 524288000, LimitReader 524288000), None), ((2, Some 1, Whole), None)])))"
  by (simp add: AppendToBlob_def foreachChunkWithKnownSize.simps appendKnown_def recording_def
      chunkSizeBytes_def inMemory_AppendToBlob_def exInMemory_def blobKey_def readAll_def Let_def)

theorem AppendToBlob_known_length_witness:
  "AppendToBlob inMemory_AppendToBlob (\<lambda>a s. (None, s)) ''library''
     \<lparr>StorageID = ''sid'', SizeBytes = 0, NumChunks = 0\<rparr> (Some 524288001) exInMemory =
   (None,
    (\<lparr>StorageID = ''sid'', SizeBytes = 524288001, NumChunks = 2\<rparr>,
     \<lparr>mem_blobs = [''library/sid'' \<mapsto> take 524288000 exInput @ drop 524288000 exInput],
      mem_blobChunkCounts = [''library/sid'' \<mapsto> 2], mem_input = []\<rparr>)) \<and>
   map (\<lambda>(m, len, chunk). (m, Some len, chunk)) (expectedCalls 0 524288001) =
     [(1, Some 524288000, LimitReader 524288000), (2, Some 1, Whole)] \<and>
   fst (inMemory_AppendToBlob exInMemory ''library'' ''sid'' 2 (Some 1) Whole) \<noteq> None"
proof -
  from AppendToBlob_known_length [OF exRun, of "\<lambda>a s. (None, s)"]
  have "map (\<lambda>(m, len, chunk). (m, Some len, chunk)) (expectedCalls 0 524288001) =
          [(1, Some 524288000, LimitReader 524288000), (2, Some 1, Whole)] \<and>
        AppendToBlob inMemory_AppendToBlob (\<lambda>a s. (None, s)) ''library''
          \<lparr>StorageID = ''sid'', SizeBytes = 0, NumChunks = 0\<rparr> (Some 524288001) exInMemory =
        (None,
         (\<lparr>StorageID = ''sid'', SizeBytes = 524288001, NumChunks = 2\<rparr>,
          \<lparr>mem_blobs = [''library/sid'' \<mapsto> take 524288000 exInput @ drop 524288000 exInput],
           mem_blobChunkCounts = [''library/sid'' \<mapsto> 2], mem_input = []\<rparr>))"
    by simp
  moreover have "fst (inMemory_AppendToBlob exInMemory ''library'' ''sid'' 2 (Some 1) Whole) \<noteq> None"
    by (simp add: inMemory_AppendToBlob_def exInMemory_def blobKey_def Let_def)
  ultimately show ?thesis by simp
qed

text \<open>
  The claim as the specification words it, with chunk numbers that start at 1 for every
  input, fails for an upload that has three chunks already: an empty input is appended
  as chunk number 4.
\<close>

theorem AppendToBlob_known_length_counterexample:
  "AppendToBlob (\<lambda>d a sid m l c. (None, d @ [(m, l, c)])) (\<lambda>a s. (None, s)) ''library''
     \<lparr>StorageID = ''sid'', SizeBytes = 100, NumChunks = 3\<rparr> (Some 0) [] =
   (None, (\<lparr>StorageID = ''sid'', SizeBytes = 100, NumChunks = 4\<rparr>, [(4, Some 0, Whole)]))"
  by (simp add: AppendToBlob_def foreachChunkWithKnownSize.simps appendKnown_def chunkSizeBytes_def)
section \<open>Replication of a blob and its row in pending\_blobs\<close>

















section \<open>Claiming an account name twice\<close>

lemma sortStrings_idem: "sortStrings (sortStrings l) = sortStrings l"
  by (cases l) (simp_all add: sortStrings_def sorted_sort_id)

lemma readAccountFile_name:
  "readAccountFile fd request n = Inr file \<Longrightarrow> file_AccountName file = n"
  by (auto simp: readAccountFile_def split: option.splits)

lemma readAccountFile_written:
  assumes "swift_fault fd request = None" and "file_AccountName file = n"
  shows "readAccountFile (fd\<lparr>Container := (Container fd)(n \<mapsto> file)\<rparr>) request n = Inr file"
  using assms by (simp add: readAccountFile_def)

text \<open>
  What a call of \<open>modifyAccountFile\<close> that returns no error has done: it has read the
  file, the modifier has accepted it, and either the file was as the modifier wants it
  and nothing was written, or the modified file was written.
\<close>

lemma modifyAccountFile_ok:
  assumes "modifyAccountFile fd n modify = ((None, u), fd')"
  obtains fileOld where
    "readAccountFile fd DownloadBefore n = Inr fileOld"
    "mod_err (modify fileOld True False) = None"
    "(if mod_aliased (modify fileOld True False)
      then fileOld\<lparr>ReplicaHostNames := sortStrings (ReplicaHostNames fileOld)\<rparr>
      else fileOld) =
       (mod_file (modify fileOld True False))\<lparr>ReplicaHostNames :=
           sortStrings (ReplicaHostNames (mod_file (modify fileOld True False)))\<rparr> \<and> fd' = fd \<or>
     fd' = fd\<lparr>Container := (Container fd)(n \<mapsto>
        (mod_file (modify fileOld True False))\<lparr>ReplicaHostNames :=
           sortStrings (ReplicaHostNames (mod_file (modify fileOld True False)))\<rparr>)\<rparr>"
proof (cases "readAccountFile fd DownloadBefore n")
  case (Inl err)
  with assms show ?thesis by (simp add: modifyAccountFile_def)
next
  case (Inr fileOld)
  show ?thesis
  proof (cases "mod_err (modify fileOld True False)")
    case (Some err)
    with assms Inr show ?thesis by (simp add: modifyAccountFile_def Let_def)
  next
    case None
    have "(if mod_aliased (modify fileOld True False)
      then fileOld\<lparr>ReplicaHostNames := sortStrings (ReplicaHostNames fileOld)\<rparr>
      else fileOld) =
       (mod_file (modify fileOld True False))\<lparr>ReplicaHostNames :=
           sortStrings (ReplicaHostNames (mod_file (modify fileOld True False)))\<rparr> \<and> fd' = fd \<or>
     fd' = fd\<lparr>Container := (Container fd)(n \<mapsto>
        (mod_file (modify fileOld True False))\<lparr>ReplicaHostNames :=
           sortStrings (ReplicaHostNames (mod_file (modify fileOld True False)))\<rparr>)\<rparr>"
      using assms Inr None
      by (simp add: modifyAccountFile_def Let_def split: if_splits option.splits sum.splits)
    with Inr None that show ?thesis by blast
  qed
qed

lemma claimPrimary_again:
  assumes own: "PrimaryHostName file = OwnHostName fd"
    and srt: "sortStrings (ReplicaHostNames file) = ReplicaHostNames file"
    and rd: "readAccountFile fd DownloadBefore n = Inr file"
  shows "modifyAccountFile fd n (claimPrimaryModifier fd) = ((None, False), fd)"
proof -
  have "file\<lparr>PrimaryHostName := OwnHostName fd\<rparr> = file" using own by simp
  then show ?thesis
    using rd srt own by (simp add: modifyAccountFile_def claimPrimaryModifier_def Let_def)
qed

text \<open>
  For a primary account the claim holds: a claim that has succeeded succeeds again, and
  the second call leaves the container as it is.
\<close>

lemma primary_claim_idempotent:
  assumes prim: "account_UpstreamPeerHostName account = []"
    and ok: "ClaimAccountName fd account secret = ((ClaimSucceeded, e), fd')"
  shows "ClaimAccountName fd' account secret = ((ClaimSucceeded, None), fd')"
proof -
  let ?n = "account_Name account"
  have secret: "secret = []"
    using ok prim by (auto simp: ClaimAccountName_def claimPrimaryAccount_def split: if_splits)
  obtain u where m: "modifyAccountFile fd ?n (claimPrimaryModifier fd) = ((None, u), fd')"
    using ok prim secret
    by (auto simp: ClaimAccountName_def claimPrimaryAccount_def split: prod.splits option.splits if_splits)
  from modifyAccountFile_ok [OF m] obtain fileOld where
    rd: "readAccountFile fd DownloadBefore ?n = Inr fileOld"
    and me: "mod_err (claimPrimaryModifier fd fileOld True False) = None"
    and w: "fd' = fd \<or>
     fd' = fd\<lparr>Container := (Container fd)(?n \<mapsto>
        (mod_file (claimPrimaryModifier fd fileOld True False))\<lparr>ReplicaHostNames :=
           sortStrings (ReplicaHostNames (mod_file (claimPrimaryModifier fd fileOld True False)))\<rparr>)\<rparr>"
    by metis
  have e: "e = None"
    using ok by (auto simp: ClaimAccountName_def split: prod.splits option.splits if_splits)
  from w show ?thesis
  proof
    assume "fd' = fd"
    with ok e show ?thesis by simp
  next
    let ?M = "fileOld\<lparr>PrimaryHostName := OwnHostName fd,
        ReplicaHostNames := sortStrings (ReplicaHostNames fileOld)\<rparr>"
    assume "fd' = fd\<lparr>Container := (Container fd)(?n \<mapsto>
        (mod_file (claimPrimaryModifier fd fileOld True False))\<lparr>ReplicaHostNames :=
           sortStrings (ReplicaHostNames (mod_file (claimPrimaryModifier fd fileOld True False)))\<rparr>)\<rparr>"
    then have fd': "fd' = fd\<lparr>Container := (Container fd)(?n \<mapsto> ?M)\<rparr>"
      using me by (auto simp add: claimPrimaryModifier_def split: if_splits)
    have nf: "swift_fault fd DownloadBefore = None"
      using rd by (auto simp: readAccountFile_def split: option.splits)
    have nm: "file_AccountName ?M = ?n"
      using readAccountFile_name [OF rd] by simp
    have rd': "readAccountFile fd' DownloadBefore ?n = Inr ?M"
      unfolding fd' by (rule readAccountFile_written [OF nf nm])
    have own: "PrimaryHostName ?M = OwnHostName fd'" unfolding fd' by simp
    have srt: "sortStrings (ReplicaHostNames ?M) = ReplicaHostNames ?M"
      by (simp add: sortStrings_idem)
    have "modifyAccountFile fd' ?n (claimPrimaryModifier fd') = ((None, False), fd')"
      by (rule claimPrimary_again [OF own srt rd'])
    then show ?thesis
      using prim secret by (simp add: ClaimAccountName_def claimPrimaryAccount_def)
  qed
qed


text \<open>
  For a replica account it never does: a claim that has succeeded has cleared the
  sublease token secret in the file, and the first pass of the next call with the same
  secret compares the two and fails with a user error.
\<close>

lemma replica_claim_burns_token:
  assumes repl: "account_UpstreamPeerHostName account \<noteq> []"
    and ok: "ClaimAccountName fd account secret = ((ClaimSucceeded, e), fd')"
  shows "ClaimAccountName fd' account secret =
    ((ClaimFailed, Some (Err ''invalid sublease token (or token was already used)'')), fd')"
proof -
  let ?n = "account_Name account"
  let ?mod = "claimReplicaModifier fd account secret"
  have secret: "secret \<noteq> []"
    using ok repl by (auto simp: ClaimAccountName_def claimReplicaAccount_def split: if_splits)
  obtain u where m: "modifyAccountFile fd ?n ?mod = ((None, u), fd')"
    using ok repl secret
    by (auto simp: ClaimAccountName_def claimReplicaAccount_def split: prod.splits option.splits if_splits)
  from modifyAccountFile_ok [OF m] obtain fileOld where
    rd: "readAccountFile fd DownloadBefore ?n = Inr fileOld"
    and me: "mod_err (?mod fileOld True False) = None"
    and w: "(if mod_aliased (?mod fileOld True False)
      then fileOld\<lparr>ReplicaHostNames := sortStrings (ReplicaHostNames fileOld)\<rparr>
      else fileOld) =
       (mod_file (?mod fileOld True False))\<lparr>ReplicaHostNames :=
           sortStrings (ReplicaHostNames (mod_file (?mod fileOld True False)))\<rparr> \<and> fd' = fd \<or>
     fd' = fd\<lparr>Container := (Container fd)(?n \<mapsto>
        (mod_file (?mod fileOld True False))\<lparr>ReplicaHostNames :=
           sortStrings (ReplicaHostNames (mod_file (?mod fileOld True False)))\<rparr>)\<rparr>"
    by blast
  let ?M = "(mod_file (?mod fileOld True False))\<lparr>ReplicaHostNames :=
           sortStrings (ReplicaHostNames (mod_file (?mod fileOld True False)))\<rparr>"
  have tok: "SubleaseTokenSecret fileOld = secret"
    using me by (auto simp: claimReplicaModifier_def split: if_splits)
  have burnt: "SubleaseTokenSecret ?M = []"
    using me tok
    by (auto simp: claimReplicaModifier_def Let_def split: if_splits option.splits prod.splits)
  have nm: "file_AccountName ?M = ?n"
    using readAccountFile_name [OF rd] me tok
    by (auto simp: claimReplicaModifier_def Let_def split: if_splits option.splits prod.splits)
  have "SubleaseTokenSecret (if mod_aliased (?mod fileOld True False)
      then fileOld\<lparr>ReplicaHostNames := sortStrings (ReplicaHostNames fileOld)\<rparr>
      else fileOld) = secret" using tok by simp
  with burnt secret have "(if mod_aliased (?mod fileOld True False)
      then fileOld\<lparr>ReplicaHostNames := sortStrings (ReplicaHostNames fileOld)\<rparr>
      else fileOld) \<noteq> ?M" by metis
  with w have fd': "fd' = fd\<lparr>Container := (Container fd)(?n \<mapsto> ?M)\<rparr>" by blast
  have nf: "swift_fault fd DownloadBefore = None"
    using rd by (auto simp: readAccountFile_def split: option.splits)
  have rd': "readAccountFile fd' DownloadBefore ?n = Inr ?M"
    unfolding fd' by (rule readAccountFile_written [OF nf nm])
  have "mod_err (claimReplicaModifier fd' account secret ?M True False) =
      Some (Err ''invalid sublease token (or token was already used)'') \<and>
    mod_isUserError (claimReplicaModifier fd' account secret ?M True False)"
    using burnt secret by (simp add: claimReplicaModifier_def)
  then have "modifyAccountFile fd' ?n (claimReplicaModifier fd' account secret) =
     ((Some (Err ''invalid sublease token (or token was already used)''), True), fd')"
    using rd' by (simp add: modifyAccountFile_def Let_def)
  then show ?thesis
    using repl secret by (simp add: ClaimAccountName_def claimReplicaAccount_def)
qed

text \<open>
  Claim C1 at the replica account \<open>library\<close> on \<open>keppel-b.example.org\<close>, whose
  primary is on \<open>keppel-a.example.org\<close> and has issued the sublease token secret
  \<open>c2VjcmV0\<close>. The first call of \<open>ClaimAccountName\<close> succeeds and enters the
  replica in the file; the second call, with the same account and the same secret and
  nothing in between, is \<open>ClaimFailed\<close>.
\<close>

theorem ClaimAccountName_replica_twice:
  "ClaimAccountName
     (exDriver ''keppel-b.example.org''
        [''library'' \<mapsto> \<lparr>file_AccountName = ''library'', PrimaryHostName = ''keppel-a.example.org'',
           ReplicaHostNames = None, SubleaseTokenSecret = ''c2VjcmV0''\<rparr>])
     (exAccount ''keppel-a.example.org'') ''c2VjcmV0'' =
   ((ClaimSucceeded, None),
    exDriver ''keppel-b.example.org''
      [''library'' \<mapsto> \<lparr>file_AccountName = ''library'', PrimaryHostName = ''keppel-a.example.org'',
         ReplicaHostNames = Some [''keppel-b.example.org''], SubleaseTokenSecret = []\<rparr>]) \<and>
   ClaimAccountName
     (exDriver ''keppel-b.example.org''
      [''library'' \<mapsto> \<lparr>file_AccountName = ''library'', PrimaryHostName = ''keppel-a.example.org'',
         ReplicaHostNames = Some [''keppel-b.example.org''], SubleaseTokenSecret = []\<rparr>])
     (exAccount ''keppel-a.example.org'') ''c2VjcmV0'' =
   ((ClaimFailed, Some (Err ''invalid sublease token (or token was already used)'')),
    exDriver ''keppel-b.example.org''
      [''library'' \<mapsto> \<lparr>file_AccountName = ''library'', PrimaryHostName = ''keppel-a.example.org'',
         ReplicaHostNames = Some [''keppel-b.example.org''], SubleaseTokenSecret = []\<rparr>])"
  by (simp add: ClaimAccountName_def claimReplicaAccount_def modifyAccountFile_def
      readAccountFile_def claimReplicaModifier_def verifyAccountOwnership_def
      addStringToList_def sortStrings_def exDriver_def exAccount_def Let_def)


section \<open>The job that deletes accounts\<close>


















text \<open>
  Two manifests that refer to each other: no manifest is a root, none is deleted, and
  the job returns the error, with nothing changed.
\<close>

lemma deleteMarkedAccount_cycle:
  "deleteMarkedAccount exJanitor ''library''
     (exJanitorWorld [exManifest ''sha256:m1'', exManifest ''sha256:m2''] exCycle) =
   Some (Return (Some (Err ''cannot make progress on deleting account: manifests remain, but none are ready to delete'')),
     exJanitorWorld [exManifest ''sha256:m1'', exManifest ''sha256:m2''] exCycle)"
  by (subst deleteMarkedAccount.simps)
     (simp add: findRootManifests_def isChildManifest_def exJanitor_def findAccountOrNil_def
        exJanitorWorld_def exLibrary_def exManifest_def exCycle_def exRef_def countManifests_def)

text \<open>
  The job tells an account whose row no longer exists from the error of
  \<open>FindAccount\<close>: when that error is \<open>sql.ErrNoRows\<close>, also wrapped, it returns no
  error and changes nothing.
\<close>

lemma deleteMarkedAccount_ErrNoRows:
  assumes "j_FindAccount j (jw_db w) accountName = (a, Some err)" and "errors_Is err ErrNoRows"
  shows "deleteMarkedAccount j accountName w = Some (Return None, w)"
  by (subst deleteMarkedAccount.simps) (cases a; simp add: assms)

text \<open>
  When \<open>FindAccount\<close> reports the missing row the way \<open>CreateOrUpdateAccount\<close>
  relies on, by a nil pointer and no error, the job goes on and reads the name through
  the nil pointer.
\<close>

lemma deleteMarkedAccount_nil:
  assumes "j_FindAccount j (jw_db w) accountName = (None, None)"
  shows "deleteMarkedAccount j accountName w = Some (Panic, w)"
  by (subst deleteMarkedAccount.simps) (simp add: assms)

text \<open>
  Claim C10 at an account name that has no row: the job does not return; it ends in the
  panic of a nil pointer dereference.
\<close>

theorem deleteMarkedAccount_missing_account_panics:
  "accounts (jw_db exGoneWorld) = [] \<and>
   deleteMarkedAccount exJanitor ''library'' exGoneWorld = Some (Panic, exGoneWorld)"
  by (subst deleteMarkedAccount.simps)
     (simp add: exJanitor_def findAccountOrNil_def exGoneWorld_def)
end
